theory Spec2Isabelle
  imports Main "HOL-Library.Multiset"
begin

section \<open>JavaScript values\<close>

text \<open>
  The dashboard experience of the embedding SDK is TypeScript; at run time its option bags are
  plain JavaScript objects, and several branches of the code test them dynamically
  (\<^verbatim>\<open>!== true\<close>, \<^verbatim>\<open>typeof x === 'boolean'\<close>, \<^verbatim>\<open>Array.isArray\<close>, truthiness). The model
  therefore carries JavaScript values. A string is a list of \<^typ>\<open>char\<close>; every character the
  code looks at is ASCII, and any other code unit behaves like an arbitrary character that is
  neither a slash nor a word character. A Number is carried as an integer (NaN and fractions
  are not represented). An object is the list of its own enumerable properties in enumeration
  order; a function value carries the text that converting it to a string gives.
\<close>

datatype js_value =
    JUndefined
  | JNull
  | JBool bool
  | JNum int
  | JStr string
  | JArr "js_value list"
  | JObj "(string \<times> js_value) list"
  | JFun string

type_synonym js_object = "(string \<times> js_value) list"

datatype error = Error string | TypeError string

text \<open>ToBoolean.\<close>

fun truthy :: "js_value \<Rightarrow> bool" where
  "truthy JUndefined = False"
| "truthy JNull = False"
| "truthy (JBool b) = b"
| "truthy (JNum n) = (n \<noteq> 0)"
| "truthy (JStr s) = (s \<noteq> [])"
| "truthy (JArr xs) = True"
| "truthy (JObj kvs) = True"
| "truthy (JFun src) = True"

fun nullish :: "js_value \<Rightarrow> bool" where
  "nullish JUndefined = True"
| "nullish JNull = True"
| "nullish v = False"

text \<open>
  Reading a property of an object: \<^verbatim>\<open>o[k]\<close> for an object \<open>o\<close> given by its own properties. A
  missing property reads as \<^verbatim>\<open>undefined\<close>.
\<close>

definition own_prop :: "js_object \<Rightarrow> string \<Rightarrow> js_value" where
  "own_prop kvs k = (case map_of kvs k of Some v \<Rightarrow> v | None \<Rightarrow> JUndefined)"

text \<open>
  \<^verbatim>\<open>v.k\<close> on an arbitrary value. On \<^verbatim>\<open>undefined\<close> and \<^verbatim>\<open>null\<close> it raises a TypeError. On a
  primitive, an array or a function the lookup goes to the built-in prototype; none of the
  property names this program reads (\<^verbatim>\<open>Name\<close>, \<^verbatim>\<open>Values\<close>, \<^verbatim>\<open>message\<close>, \<^verbatim>\<open>height\<close>,
  \<^verbatim>\<open>export\<close>, \<^verbatim>\<open>print\<close>,
  \<^verbatim>\<open>undoRedo\<close>, \<^verbatim>\<open>reset\<close>, \<^verbatim>\<open>bookmarks\<close>, \<^verbatim>\<open>overlayContent\<close>, \<^verbatim>\<open>initialSheetId\<close>,
  \<^verbatim>\<open>singleSheet\<close>, \<^verbatim>\<open>emitSizeChangedEventOnSheetChange\<close>) exists there, so the result is
  \<^verbatim>\<open>undefined\<close>.
\<close>

fun get_member :: "js_value \<Rightarrow> string \<Rightarrow> error + js_value" where
  "get_member JUndefined k = Inl (TypeError ''Cannot read properties of undefined'')"
| "get_member JNull k = Inl (TypeError ''Cannot read properties of null'')"
| "get_member (JObj kvs) k = Inr (own_prop kvs k)"
| "get_member v k = Inr JUndefined"

text \<open>
  Optional chaining \<^verbatim>\<open>v?.k\<close>: \<^verbatim>\<open>undefined\<close> when \<open>v\<close> is nullish, never an error; on the
  other values as the plain read.
\<close>

fun opt_member :: "js_value \<Rightarrow> string \<Rightarrow> js_value" where
  "opt_member (JObj kvs) k = own_prop kvs k"
| "opt_member v k = JUndefined"

text \<open>
  Assignment \<^verbatim>\<open>o[k] = v\<close> on a plain object: an existing property keeps its place, a new one
  is added after the others.
\<close>

fun set_prop :: "string \<Rightarrow> js_value \<Rightarrow> js_object \<Rightarrow> js_object" where
  "set_prop k v [] = [(k, v)]"
| "set_prop k v ((k', v') # kvs) =
     (if k' = k then (k, v) # kvs else (k', v') # set_prop k v kvs)"

text \<open>Decimal text of an integer, as ToString gives for an integral Number below \<open>10\<^sup>2\<^sup>1\<close>.\<close>

fun digits_of :: "nat \<Rightarrow> string" where
  "digits_of n =
     (if n < 10 then [char_of (48 + n)] else digits_of (n div 10) @ [char_of (48 + n mod 10)])"

definition int_to_string :: "int \<Rightarrow> string" where
  "int_to_string i = (if i < 0 then CHR ''-'' # digits_of (nat (- i)) else digits_of (nat i))"

fun join_with :: "string \<Rightarrow> string list \<Rightarrow> string" where
  "join_with sep [] = []"
| "join_with sep [s] = s"
| "join_with sep (s # t # ss) = s @ sep @ join_with sep (t # ss)"

text \<open>
  ToString, as a template literal and a computed property key apply it. An array joins its
  elements with commas, \<^verbatim>\<open>undefined\<close> and \<^verbatim>\<open>null\<close> elements giving the empty text; a plain
  object gives \<^verbatim>\<open>[object Object]\<close>.
\<close>

fun to_string :: "js_value \<Rightarrow> string" where
  "to_string JUndefined = ''undefined''"
| "to_string JNull = ''null''"
| "to_string (JBool b) = (if b then ''true'' else ''false'')"
| "to_string (JNum n) = int_to_string n"
| "to_string (JStr s) = s"
| "to_string (JArr xs) =
     join_with '','' (map (\<lambda>x. if x = JUndefined \<or> x = JNull then [] else to_string x) xs)"
| "to_string (JObj kvs) = ''[object Object]''"
| "to_string (JFun src) = src"

section \<open>The URL grammar of a dashboard experience\<close>

text \<open>
  \<^verbatim>\<open>extractExperienceFromUrl\<close> runs the regular expression
  \<^verbatim>\<open>/^https:\/\/[^/]+\/embed\/[^/]+\/dashboards\/([\w-]+)(\?|$)/i\<close> on the URL.

  Under the \<^verbatim>\<open>i\<close> flag (without \<^verbatim>\<open>u\<close>) two characters are equal when their canonical forms
  are; the canonical form of a character is its upper-case form, except that a character
  outside ASCII is never mapped into ASCII. All pattern characters are ASCII, so it is enough
  to fold the ASCII lower-case letters.
\<close>

definition canonicalize :: "char \<Rightarrow> char" where
  "canonicalize c =
     (case map_of (zip ''abcdefghijklmnopqrstuvwxyz'' ''ABCDEFGHIJKLMNOPQRSTUVWXYZ'') c of
        Some u \<Rightarrow> u
      | None \<Rightarrow> c)"

text \<open>The class \<^verbatim>\<open>[^/]\<close>.\<close>

definition not_slash :: "char \<Rightarrow> bool" where
  "not_slash c = (c \<noteq> CHR ''/'')"

text \<open>The class \<^verbatim>\<open>[\w-]\<close>: ASCII letters, digits, underscore, hyphen.\<close>

definition word_or_hyphen :: "char \<Rightarrow> bool" where
  "word_or_hyphen c \<longleftrightarrow>
     c \<in> set ''ABCDEFGHIJKLMNOPQRSTUVWXYZabcdefghijklmnopqrstuvwxyz0123456789_-''"

text \<open>
  A literal piece of the pattern, matched at the start of the input; the result is the rest of
  the input. The first argument is the folding applied to both sides before comparing:
  \<^const>\<open>canonicalize\<close> for the \<^verbatim>\<open>i\<close> flag.
\<close>

fun match_literal :: "(char \<Rightarrow> char) \<Rightarrow> string \<Rightarrow> string \<Rightarrow> string option" where
  "match_literal cf [] s = Some s"
| "match_literal cf (p # ps) [] = None"
| "match_literal cf (p # ps) (c # cs) =
     (if cf c = cf p then match_literal cf ps cs else None)"

text \<open>
  A greedy \<^verbatim>\<open>[class]+\<close>: the longest run of class characters, which must not be empty. In this
  pattern every such loop is followed by something no class character can start (a slash
  after \<^verbatim>\<open>[^/]+\<close>; a question mark or the end of input after \<^verbatim>\<open>[\w-]+\<close>), so giving back
  characters can never turn a failure into a match, and the longest run is the only candidate.
  The result is the run and the rest of the input.
\<close>

definition match_class_plus :: "(char \<Rightarrow> bool) \<Rightarrow> string \<Rightarrow> (string \<times> string) option" where
  "match_class_plus cls s =
     (if takeWhile cls s = [] then None else Some (takeWhile cls s, dropWhile cls s))"

text \<open>
  The group \<^verbatim>\<open>(\?|$)\<close>: a question mark, or else the end of the input (there is no \<^verbatim>\<open>m\<close>
  flag, so \<^verbatim>\<open>$\<close> is the very end). The result is the text the group captured.
\<close>

fun match_query_or_end :: "string \<Rightarrow> string option" where
  "match_query_or_end [] = Some []"
| "match_query_or_end (c # cs) = (if c = CHR ''?'' then Some [c] else None)"

text \<open>
  The whole pattern, anchored at the start by \<^verbatim>\<open>^\<close>. On success the result is the array
  \<^verbatim>\<open>exec\<close> returns: the matched text, group 1 (the dashboard id) and group 2.
\<close>

definition dashboard_url_match :: "(char \<Rightarrow> char) \<Rightarrow> string \<Rightarrow> string list option" where
  "dashboard_url_match cf url =
     Option.bind (match_literal cf ''https://'' url) (\<lambda>r1.
     Option.bind (match_class_plus not_slash r1) (\<lambda>(host, r2).
     Option.bind (match_literal cf ''/embed/'' r2) (\<lambda>r3.
     Option.bind (match_class_plus not_slash r3) (\<lambda>(guid, r4).
     Option.bind (match_literal cf ''/dashboards/'' r4) (\<lambda>r5.
     Option.bind (match_class_plus word_or_hyphen r5) (\<lambda>(dashboardId, r6).
     Option.bind (match_query_or_end r6) (\<lambda>g2.
       Some [take (length url - length r6 + length g2) url, dashboardId, g2])))))))"

definition dashboard_regex_exec :: "string \<Rightarrow> string list option" where
  "dashboard_regex_exec url = dashboard_url_match canonicalize url"


section \<open>Change events, frame options and the observable world\<close>

datatype ExperienceType = DASHBOARD | VISUAL

record IDashboardExperience =
  experienceType :: ExperienceType
  dashboardId :: string

record InternalDashboardExperience = IDashboardExperience +
  contextId :: string
  discriminator :: nat

datatype ChangeEventName = FRAME_STARTED | NO_URL | INVALID_URL | UNRECOGNIZED_CONTENT_OPTIONS

datatype ChangeEventLevel = INFO | WARN | ERROR

text \<open>\<^verbatim>\<open>new ChangeEvent(eventName, eventLevel, message, data)\<close>.\<close>

datatype ChangeEvent = ChangeEvent ChangeEventName ChangeEventLevel string js_value

text \<open>
  The part of \<^verbatim>\<open>FrameOptions\<close> this class reads. \<open>onChange\<close> says whether the host supplied
  the optional \<^verbatim>\<open>onChange\<close> callback; the callback is an observer of the host, each call to it
  is recorded in the world in order, and it returns normally.
\<close>

record FrameOptions =
  url :: string
  onChange :: bool
  resizeHeightOnSizeChangedEvent :: js_value

text \<open>
  \<^verbatim>\<open>DashboardExperienceFrame\<close> is defined outside this file; an instance is represented by the
  arguments it was constructed with (frame options, content options, transformed content
  options, internal experience, experience identifier). What its constructor does beyond
  taking them, further calls to \<^verbatim>\<open>onChange\<close> included, is not part of the model.
\<close>

datatype DashboardExperienceFrame =
  DashboardExperienceFrame FrameOptions js_object js_object InternalDashboardExperience string

text \<open>
  What the host can observe: the calls made to \<^verbatim>\<open>onChange\<close>, each with its change event and
  its second argument, and the frames constructed so far.
\<close>

record world =
  onChangeCalls :: "(ChangeEvent \<times> js_value) list"
  framesConstructed :: "DashboardExperienceFrame list"

text \<open>\<^verbatim>\<open>this.frameOptions.onChange?.(changeEvent, {frame: null})\<close>.\<close>

definition call_onChange :: "FrameOptions \<Rightarrow> ChangeEvent \<Rightarrow> world \<Rightarrow> world" where
  "call_onChange fo ev w =
     (if onChange fo
      then w\<lparr>onChangeCalls := onChangeCalls w @ [(ev, JObj [(''frame'', JNull)])]\<rparr>
      else w)"

section \<open>extractExperienceFromUrl\<close>

definition extractExperienceFromUrl ::
  "FrameOptions \<Rightarrow> string \<Rightarrow> world \<Rightarrow> world \<times> (error + IDashboardExperience)" where
  "extractExperienceFromUrl fo u w =
     (let matches = (case dashboard_regex_exec u of Some ms \<Rightarrow> ms | None \<Rightarrow> []) in
      if length matches < 3
      then (call_onChange fo
              (ChangeEvent INVALID_URL ERROR ''Invalid dashboard experience url''
                 (JObj [(''url'', JStr u)])) w,
            Inl (Error ''Invalid dashboard experience URL''))
      else (w, Inr \<lparr>experienceType = DASHBOARD, dashboardId = matches ! 1\<rparr>))"


section \<open>The collaborators inherited from BaseExperience\<close>

text \<open>
  \<^verbatim>\<open>BaseExperience\<close> is defined outside this file. The two of its methods the dashboard
  experience calls are parameters of the model: \<^verbatim>\<open>getInternalExperienceInfo\<close>, which gives the
  experience identifier and the internal experience, and \<^verbatim>\<open>transformContentOptions\<close>, which
  receives the filtered options and the unrecognized options, may call \<^verbatim>\<open>onChange\<close>, and
  returns the object the dashboard-specific options are then written into.
\<close>

record BaseExperience =
  getInternalExperienceInfo :: "IDashboardExperience \<Rightarrow> string \<times> InternalDashboardExperience"
  transformContentOptions :: "FrameOptions \<Rightarrow> js_object \<Rightarrow> js_object \<Rightarrow> world \<Rightarrow> world \<times> js_object"

text \<open>\<^verbatim>\<open>Object.keys\<close> of a plain object.\<close>

definition object_keys :: "js_object \<Rightarrow> string list" where
  "object_keys kvs = map fst kvs"

text \<open>\<^verbatim>\<open>{...a, ...b}\<close>: the properties of \<open>b\<close> written over a copy of \<open>a\<close>.\<close>

definition spread_into :: "js_object \<Rightarrow> js_object \<Rightarrow> js_object" where
  "spread_into a b = fold (\<lambda>(k, v). set_prop k v) b a"

text \<open>
  Modelled from the spec: \<^verbatim>\<open>transformContentOptions\<close> of \<^verbatim>\<open>BaseExperience\<close>, which is not
  among the sources. The specification says that an option key outside the recognized table
  is not dropped: it is reported and still forwarded; and that unrecognized keys trigger
  exactly one WARN-level change event listing those keys. The text of the event is the one the
  test suite expects. Without unrecognized keys nothing is reported.
\<close>

definition transformContentOptions_spec ::
  "FrameOptions \<Rightarrow> js_object \<Rightarrow> js_object \<Rightarrow> world \<Rightarrow> world \<times> js_object" where
  "transformContentOptions_spec fo filteredOptions unrecognizedContentOptions w =
     ((if object_keys unrecognizedContentOptions = [] then w
       else call_onChange fo
              (ChangeEvent UNRECOGNIZED_CONTENT_OPTIONS WARN
                 ''Experience content options contain unrecognized properties''
                 (JObj [(''unrecognizedContentOptions'',
                         JArr (map JStr (object_keys unrecognizedContentOptions)))])) w),
      spread_into filteredOptions unrecognizedContentOptions)"

section \<open>transformDashboardContentOptions\<close>

text \<open>
  The rest element of an object destructuring pattern: the own properties whose keys are not
  among the names bound before it, in their order.
\<close>

definition rest_properties :: "string list \<Rightarrow> js_object \<Rightarrow> js_object" where
  "rest_properties names kvs = filter (\<lambda>kv. fst kv \<notin> set names) kvs"

definition recognized_option_names :: "string list" where
  "recognized_option_names =
     [''parameters'', ''locale'', ''attributionOptions'', ''sheetOptions'', ''toolbarOptions'',
      ''onMessage'']"

text \<open>
  \<^verbatim>\<open>parameters.reduce((parametersAsObject, parameter) =>
        ({...parametersAsObject, [parameter.Name]: parameter.Values}), {})\<close>,
  with the accumulator as second argument. Reading \<^verbatim>\<open>Name\<close> of an \<^verbatim>\<open>undefined\<close> or \<^verbatim>\<open>null\<close>
  entry raises a TypeError; the computed key is the text of the name.
\<close>

fun reduce_parameters :: "js_value list \<Rightarrow> js_object \<Rightarrow> error + js_object" where
  "reduce_parameters [] parametersAsObject = Inr parametersAsObject"
| "reduce_parameters (parameter # rest) parametersAsObject =
     (case get_member parameter ''Name'' of
        Inl e \<Rightarrow> Inl e
      | Inr name \<Rightarrow>
          (case get_member parameter ''Values'' of
             Inl e \<Rightarrow> Inl e
           | Inr vals \<Rightarrow>
               reduce_parameters rest (set_prop (to_string name) vals parametersAsObject)))"

text \<open>One guarded assignment \<^verbatim>\<open>if (c) { o[k] = v; }\<close>.\<close>

definition assign_if :: "bool \<Rightarrow> string \<Rightarrow> js_value \<Rightarrow> js_object \<Rightarrow> js_object" where
  "assign_if c k v obj = (if c then set_prop k v obj else obj)"

text \<open>
  The assignments after the parameters, in the order of the source. In the branch for
  \<^verbatim>\<open>sheetId\<close> the plain read \<^verbatim>\<open>sheetOptions.initialSheetId\<close> is behind the guard
  \<^verbatim>\<open>sheetOptions?.initialSheetId\<close>, under which it cannot raise and gives the same value.
\<close>

definition assign_dashboard_options ::
  "js_value \<Rightarrow> js_value \<Rightarrow> js_value \<Rightarrow> js_object \<Rightarrow> js_object" where
  "assign_dashboard_options attributionOptions sheetOptions toolbarOptions t1 =
     (let t2 = assign_if (opt_member attributionOptions ''overlayContent'' \<noteq> JBool True)
                 ''footerPaddingEnabled'' (JBool True) t1;
          t3 = assign_if (truthy (opt_member toolbarOptions ''export'') \<or>
                          truthy (opt_member (opt_member toolbarOptions ''export'') ''print''))
                 ''printEnabled'' (JBool True) t2;
          t4 = assign_if (opt_member toolbarOptions ''undoRedo'' \<noteq> JBool True)
                 ''undoRedoDisabled'' (JBool True) t3;
          t5 = assign_if (opt_member toolbarOptions ''reset'' \<noteq> JBool True)
                 ''resetDisabled'' (JBool True) t4;
          t6 = assign_if (opt_member toolbarOptions ''bookmarks'' = JBool True)
                 ''showBookmarksIcon'' (JBool True) t5;
          t7 = assign_if (truthy (opt_member sheetOptions ''initialSheetId''))
                 ''sheetId'' (opt_member sheetOptions ''initialSheetId'') t6;
          t8 = assign_if (case opt_member sheetOptions ''singleSheet'' of JBool b \<Rightarrow> True | _ \<Rightarrow> False)
                 ''sheetTabsDisabled'' (opt_member sheetOptions ''singleSheet'') t7;
          t9 = assign_if (truthy (opt_member sheetOptions ''emitSizeChangedEventOnSheetChange''))
                 ''resizeOnSheetChange'' (JBool True) t8
      in t9)"

text \<open>The property names \<^verbatim>\<open>transformDashboardContentOptions\<close> itself writes.\<close>

definition assigned_option_names :: "string list" where
  "assigned_option_names =
     [''parameters'', ''footerPaddingEnabled'', ''printEnabled'', ''undoRedoDisabled'',
      ''resetDisabled'', ''showBookmarksIcon'', ''sheetId'', ''sheetTabsDisabled'',
      ''resizeOnSheetChange'']"

definition transformDashboardContentOptions ::
  "BaseExperience \<Rightarrow> FrameOptions \<Rightarrow> js_object \<Rightarrow> world \<Rightarrow> world \<times> (error + js_object)" where
  "transformDashboardContentOptions base fo contentOptions w =
     (let parameters = own_prop contentOptions ''parameters'';
          locale = own_prop contentOptions ''locale'';
          attributionOptions = own_prop contentOptions ''attributionOptions'';
          sheetOptions = own_prop contentOptions ''sheetOptions'';
          toolbarOptions = own_prop contentOptions ''toolbarOptions'';
          unrecognizedContentOptions = rest_properties recognized_option_names contentOptions;
          (w1, t0) = transformContentOptions base fo [(''locale'', locale)]
                       unrecognizedContentOptions w
      in case (case parameters of
                 JArr ps \<Rightarrow>
                   (case reduce_parameters ps [] of
                      Inl e \<Rightarrow> Inl e
                    | Inr obj \<Rightarrow> Inr (set_prop ''parameters'' (JObj obj) t0))
               | _ \<Rightarrow> Inr t0) of
           Inl e \<Rightarrow> (w1, Inl e)
         | Inr t1 \<Rightarrow>
             (w1, Inr (assign_dashboard_options attributionOptions sheetOptions toolbarOptions t1)))"

text \<open>
  The call \<^verbatim>\<open>this.transformContentOptions({locale}, unrecognizedContentOptions)\<close> at the start
  of \<^verbatim>\<open>transformDashboardContentOptions\<close>, on its own: the world after it and the object it
  returns.
\<close>

definition base_transformed ::
  "BaseExperience \<Rightarrow> FrameOptions \<Rightarrow> js_object \<Rightarrow> world \<Rightarrow> world \<times> js_object" where
  "base_transformed base fo contentOptions w =
     transformContentOptions base fo [(''locale'', own_prop contentOptions ''locale'')]
       (rest_properties recognized_option_names contentOptions) w"

section \<open>The constructor\<close>

record DashboardExperience =
  experience :: IDashboardExperience
  internalExperience :: InternalDashboardExperience
  experienceId :: string
  experienceFrame :: DashboardExperienceFrame

text \<open>
  Modelled from the spec: the constructor of \<^verbatim>\<open>BaseExperience\<close>, which \<^verbatim>\<open>super(...)\<close> runs
  first and which is not among the sources. The specification makes a missing embed URL a
  construction error, thrown synchronously from the constructor and aborting the creation;
  the test suite gives its message, \<^verbatim>\<open>Url is required for the experience\<close>, and shows that it
  comes before the URL is matched against the grammar. Among URL strings the empty one is the
  missing one. Before the throw the failure is reported to \<^verbatim>\<open>onChange\<close>, at level ERROR under
  the name \<^verbatim>\<open>NO_URL\<close>. With a URL present the constructor stores its arguments
  (\<^verbatim>\<open>this.frameOptions\<close> is the frame options passed in) and returns.
\<close>

definition BaseExperience_constructor :: "FrameOptions \<Rightarrow> world \<Rightarrow> world \<times> error option" where
  "BaseExperience_constructor frameOptions w =
     (if url frameOptions = []
      then (call_onChange frameOptions
              (ChangeEvent NO_URL ERROR ''Url is required for the experience'' JUndefined) w,
            Some (Error ''Url is required for the experience''))
      else (w, None))"

text \<open>
  The constructor: \<^verbatim>\<open>super(...)\<close>, then the body. A thrown error ends the construction: no
  object results. The arguments of \<^verbatim>\<open>new DashboardExperienceFrame(...)\<close>, the transformed
  content options among them, are evaluated before the frame is constructed.
\<close>

definition DashboardExperience_constructor ::
  "BaseExperience \<Rightarrow> FrameOptions \<Rightarrow> js_object \<Rightarrow> world \<Rightarrow> world \<times> (error + DashboardExperience)" where
  "DashboardExperience_constructor base frameOptions contentOptions w =
     (case BaseExperience_constructor frameOptions w of
        (w0, Some e) \<Rightarrow> (w0, Inl e)
      | (w0, None) \<Rightarrow>
          (case extractExperienceFromUrl frameOptions (url frameOptions) w0 of
             (w1, Inl e) \<Rightarrow> (w1, Inl e)
           | (w1, Inr ex) \<Rightarrow>
               (case getInternalExperienceInfo base ex of
                  (experienceIdentifier, internal) \<Rightarrow>
                    (case transformDashboardContentOptions base frameOptions contentOptions w1 of
                       (w2, Inl e) \<Rightarrow> (w2, Inl e)
                     | (w2, Inr transformed) \<Rightarrow>
                         (let fr = DashboardExperienceFrame frameOptions contentOptions transformed
                                     internal experienceIdentifier
                          in (w2\<lparr>framesConstructed := framesConstructed w2 @ [fr]\<rparr>,
                              Inr \<lparr>experience = ex, internalExperience = internal,
                                   experienceId = experienceIdentifier,
                                   experienceFrame = fr\<rparr>))))))"


section \<open>The requests that unwrap a response\<close>

datatype MessageEventName =
    GET_PARAMETERS
  | GET_SHEETS
  | GET_VISUAL_ACTIONS
  | GET_SELECTED_SHEET_ID
  | GET_SHEET_VISUALS

text \<open>
  \<^verbatim>\<open>new EmbeddingMessageEvent(eventName, message)\<close>; the message is \<^verbatim>\<open>undefined\<close> when the
  second argument is left out.
\<close>

datatype EmbeddingMessageEvent = EmbeddingMessageEvent MessageEventName js_value

text \<open>
  \<^verbatim>\<open>send\<close> belongs to \<^verbatim>\<open>BaseExperience\<close> and is a parameter here. What awaiting its promise
  gives: the value it is fulfilled with, the error it is rejected with, or nothing when it
  stays pending. An \<^verbatim>\<open>async\<close> function that awaits it passes a rejection and a pending
  promise on.
\<close>

datatype 'a promise = Fulfilled 'a | Rejected error | Pending

fun await_then :: "'a promise \<Rightarrow> ('a \<Rightarrow> 'b) \<Rightarrow> 'b promise" where
  "await_then (Fulfilled r) f = Fulfilled (f r)"
| "await_then (Rejected e) f = Rejected e"
| "await_then Pending f = Pending"

text \<open>\<^verbatim>\<open>a ?? b\<close>.\<close>

definition nullish_coalesce :: "js_value \<Rightarrow> js_value \<Rightarrow> js_value" where
  "nullish_coalesce a b = (if nullish a then b else a)"

definition getParameters :: "(EmbeddingMessageEvent \<Rightarrow> js_value promise) \<Rightarrow> js_value promise" where
  "getParameters send =
     await_then (send (EmbeddingMessageEvent GET_PARAMETERS JUndefined))
       (\<lambda>response. nullish_coalesce (opt_member response ''message'') (JArr []))"

definition getSheets :: "(EmbeddingMessageEvent \<Rightarrow> js_value promise) \<Rightarrow> js_value promise" where
  "getSheets send =
     await_then (send (EmbeddingMessageEvent GET_SHEETS JUndefined))
       (\<lambda>response. nullish_coalesce (opt_member response ''message'') (JArr []))"

definition getVisualActions ::
  "(EmbeddingMessageEvent \<Rightarrow> js_value promise) \<Rightarrow> string \<Rightarrow> string \<Rightarrow> js_value promise" where
  "getVisualActions send sheetId visualId =
     await_then
       (send (EmbeddingMessageEvent GET_VISUAL_ACTIONS
                (JObj [(''SheetId'', JStr sheetId), (''VisualId'', JStr visualId)])))
       (\<lambda>response. nullish_coalesce (opt_member response ''message'') (JArr []))"

definition getSelectedSheetId :: "(EmbeddingMessageEvent \<Rightarrow> js_value promise) \<Rightarrow> js_value promise" where
  "getSelectedSheetId send =
     await_then (send (EmbeddingMessageEvent GET_SELECTED_SHEET_ID JUndefined))
       (\<lambda>response. nullish_coalesce (opt_member response ''message'') (JStr []))"

definition getSheetVisuals ::
  "(EmbeddingMessageEvent \<Rightarrow> js_value promise) \<Rightarrow> string \<Rightarrow> js_value promise" where
  "getSheetVisuals send sheetId =
     await_then
       (send (EmbeddingMessageEvent GET_SHEET_VISUALS (JObj [(''SheetId'', JStr sheetId)])))
       (\<lambda>response. nullish_coalesce (opt_member response ''message'') (JArr []))"

section \<open>interceptMessage\<close>

text \<open>
  The second argument of the hook is optional; its \<^verbatim>\<open>frame\<close> is an iframe element or
  \<^verbatim>\<open>null\<close>. An element is given by its attributes, and \<^verbatim>\<open>setAttribute\<close>, which every element
  has, writes one of them. The message event is an object received from the channel.
\<close>

type_synonym element = "string \<rightharpoonup> string"

record ExperienceFrameMetadata =
  frame :: "element option"

definition interceptMessage ::
  "FrameOptions \<Rightarrow> js_object \<Rightarrow> ExperienceFrameMetadata option \<Rightarrow> ExperienceFrameMetadata option" where
  "interceptMessage fo messageEvent metadata =
     (if own_prop messageEvent ''eventName'' = JStr ''SIZE_CHANGED'' \<and>
         truthy (resizeHeightOnSizeChangedEvent fo)
      then (case metadata of
              None \<Rightarrow> None
            | Some md \<Rightarrow>
                (case frame md of
                   None \<Rightarrow> Some md
                 | Some el \<Rightarrow>
                     Some (md\<lparr>frame := Some (el(''height'' \<mapsto>
                        to_string (opt_member (own_prop messageEvent ''message'') ''height'')
                          @ ''px''))\<rparr>)))
      else metadata)"

section \<open>Parameters as typed values\<close>

text \<open>A \<^verbatim>\<open>Parameter\<close> is an object with a \<^verbatim>\<open>Name\<close> and its \<^verbatim>\<open>Values\<close>.\<close>

record Parameter =
  Name :: string
  Values :: js_value

definition parameter_object :: "Parameter \<Rightarrow> js_value" where
  "parameter_object p = JObj [(''Name'', JStr (Name p)), (''Values'', Values p)]"

text \<open>
  Modelled from the spec: the conversion of a name-to-values mapping back to a list of
  \<^verbatim>\<open>{Name, Values}\<close> pairs, which is not among the sources. The specification asks that a list
  of pairs converts to and from the mapping; each property of the mapping gives one pair.
\<close>

definition parameters_of_object :: "js_object \<Rightarrow> Parameter list" where
  "parameters_of_object obj = map (\<lambda>kv. \<lparr>Name = fst kv, Values = snd kv\<rparr>) obj"

text \<open>
  The arrays for which the reduction over \<^verbatim>\<open>parameters\<close> cannot raise: no entry is
  \<^verbatim>\<open>undefined\<close> or \<^verbatim>\<open>null\<close>. Anything that is not an array is skipped by the code.
\<close>

fun parameters_readable :: "js_value \<Rightarrow> bool" where
  "parameters_readable (JArr ps) = list_all (\<lambda>p. \<not> nullish p) ps"
| "parameters_readable v = True"

section \<open>The dashboard path grammar as the specification writes it\<close>

text \<open>
  \<^verbatim>\<open>https://{host}/embed/{guid}/dashboards/{dashboardId}\<close>, optionally followed by a question
  mark and a query: host and guid are non-empty and free of slashes, the dashboard id is a
  non-empty run of word characters and hyphens. The first argument folds the characters of
  the fixed parts before they are compared: with the identity the fixed parts are read
  literally, with \<^const>\<open>canonicalize\<close> their letter case is ignored.
\<close>

definition path_grammar :: "(char \<Rightarrow> char) \<Rightarrow> string \<Rightarrow> bool" where
  "path_grammar cf u \<longleftrightarrow>
     (\<exists>p1 host p2 guid p3 did tail.
        u = p1 @ host @ p2 @ guid @ p3 @ did @ tail \<and>
        map cf p1 = map cf ''https://'' \<and>
        host \<noteq> [] \<and> list_all not_slash host \<and>
        map cf p2 = map cf ''/embed/'' \<and>
        guid \<noteq> [] \<and> list_all not_slash guid \<and>
        map cf p3 = map cf ''/dashboards/'' \<and>
        did \<noteq> [] \<and> list_all word_or_hyphen did \<and>
        (tail = [] \<or> hd tail = CHR ''?''))"

definition dashboard_path_grammar :: "string \<Rightarrow> bool" where
  "dashboard_path_grammar u = path_grammar (\<lambda>c. c) u"

definition dashboard_path_grammar_ci :: "string \<Rightarrow> bool" where
  "dashboard_path_grammar_ci u = path_grammar canonicalize u"

text \<open>A folding under which only the slash is equal to the slash.\<close>

definition slash_exact :: "(char \<Rightarrow> char) \<Rightarrow> bool" where
  "slash_exact cf \<longleftrightarrow> (\<forall>c. cf c = cf CHR ''/'' \<longrightarrow> c = CHR ''/'')"

section \<open>Sample collaborators for concrete runs\<close>

definition sample_getInternalExperienceInfo ::
  "IDashboardExperience \<Rightarrow> string \<times> InternalDashboardExperience" where
  "sample_getInternalExperienceInfo ex =
     (dashboardId ex,
      \<lparr>experienceType = experienceType ex, dashboardId = dashboardId ex,
       contextId = ''testContextId'', discriminator = 0\<rparr>)"

definition sample_base :: BaseExperience where
  "sample_base =
     \<lparr>getInternalExperienceInfo = sample_getInternalExperienceInfo,
      transformContentOptions = transformContentOptions_spec\<rparr>"

definition sample_frameOptions :: "string \<Rightarrow> FrameOptions" where
  "sample_frameOptions u =
     \<lparr>url = u, onChange = True, resizeHeightOnSizeChangedEvent = JBool True\<rparr>"

definition empty_world :: world where
  "empty_world = \<lparr>onChangeCalls = [], framesConstructed = []\<rparr>"

text \<open>A channel that fulfils every request with the same response.\<close>

definition send_answering :: "js_value \<Rightarrow> EmbeddingMessageEvent \<Rightarrow> js_value promise" where
  "send_answering response ev = Fulfilled response"


section \<open>The matcher recognizes exactly the grammar\<close>

lemma match_literal_append:
  "map cf p' = map cf p \<Longrightarrow> match_literal cf p (p' @ r) = Some r"
proof (induction p arbitrary: p')
  case Nil
  then show ?case by simp
next
  case (Cons a p)
  then obtain b q where "p' = b # q" by (cases p') auto
  with Cons show ?case by simp
qed

lemma match_literal_SomeD:
  "match_literal cf p s = Some r \<Longrightarrow> \<exists>p'. s = p' @ r \<and> map cf p' = map cf p"
proof (induction cf p s rule: match_literal.induct)
  case (1 cf s)
  then show ?case by simp
next
  case (2 cf p ps)
  then show ?case by simp
next
  case (3 cf p ps c cs)
  then have eq: "cf c = cf p" and m: "match_literal cf ps cs = Some r"
    by (auto split: if_splits)
  from 3(1)[OF eq m] obtain q where "cs = q @ r" "map cf q = map cf ps" by blast
  with eq have "c # cs = (c # q) @ r \<and> map cf (c # q) = map cf (p # ps)" by simp
  then show ?case by blast
qed

lemma takeWhile_run:
  "list_all cls m \<Longrightarrow> r = [] \<or> \<not> cls (hd r) \<Longrightarrow>
   takeWhile cls (m @ r) = m \<and> dropWhile cls (m @ r) = r"
  by (induction m) (auto simp: takeWhile_eq_Nil_iff dropWhile_eq_self_iff neq_Nil_conv)

lemma match_class_plus_append:
  "m \<noteq> [] \<Longrightarrow> list_all cls m \<Longrightarrow> r = [] \<or> \<not> cls (hd r) \<Longrightarrow>
   match_class_plus cls (m @ r) = Some (m, r)"
  using takeWhile_run[of cls m r] by (simp add: match_class_plus_def)

lemma match_class_plus_SomeD:
  "match_class_plus cls s = Some (m, r) \<Longrightarrow>
   s = m @ r \<and> m \<noteq> [] \<and> list_all cls m \<and> (r = [] \<or> \<not> cls (hd r))"
  by (auto simp: match_class_plus_def list_all_iff hd_dropWhile
      split: if_splits dest: set_takeWhileD)

lemma match_query_or_end_iff:
  "match_query_or_end s = Some g \<longleftrightarrow>
   (s = [] \<and> g = []) \<or> (s \<noteq> [] \<and> hd s = CHR ''?'' \<and> g = ''?'')"
  by (cases s) auto

lemma literal_starts_with_slash:
  assumes "slash_exact cf" "map cf p = map cf (CHR ''/'' # q)"
  shows "\<not> not_slash (hd (p @ r))"
proof -
  from assms(2) obtain c p' where p: "p = c # p'" and "cf c = cf CHR ''/''"
    by (cases p) auto
  with assms(1) have "c = CHR ''/''" by (simp add: slash_exact_def)
  with p show ?thesis by (simp add: not_slash_def)
qed

lemma query_not_word: "\<not> word_or_hyphen CHR ''?''"
  by (simp add: word_or_hyphen_def)

lemma slash_not_word: "\<not> word_or_hyphen CHR ''/''"
  by (simp add: word_or_hyphen_def)

text \<open>
  The first six steps of the matcher on an input that starts like the grammar: they consume
  the fixed parts, the host, the guid and the dashboard id, whatever follows, as long as what
  follows cannot continue the dashboard id.
\<close>

lemma url_match_prefix:
  assumes cf: "slash_exact cf"
    and p1: "map cf p1 = map cf ''https://''"
    and host: "host \<noteq> []" "list_all not_slash host"
    and p2: "map cf p2 = map cf ''/embed/''"
    and guid: "guid \<noteq> []" "list_all not_slash guid"
    and p3: "map cf p3 = map cf ''/dashboards/''"
    and did: "did \<noteq> []" "list_all word_or_hyphen did"
    and tail: "tail = [] \<or> \<not> word_or_hyphen (hd tail)"
  shows "dashboard_url_match cf (p1 @ host @ p2 @ guid @ p3 @ did @ tail) =
           Option.bind (match_query_or_end tail) (\<lambda>g2.
             Some [take (length (p1 @ host @ p2 @ guid @ p3 @ did @ tail) - length tail
                         + length g2) (p1 @ host @ p2 @ guid @ p3 @ did @ tail), did, g2])"
proof -
  have s1: "match_literal cf ''https://'' (p1 @ host @ p2 @ guid @ p3 @ did @ tail)
              = Some (host @ p2 @ guid @ p3 @ did @ tail)"
    using p1 by (rule match_literal_append)
  have "\<not> not_slash (hd (p2 @ guid @ p3 @ did @ tail))"
    using literal_starts_with_slash[OF cf, of p2 "''embed/''"] p2 by simp
  then have s2: "match_class_plus not_slash (host @ p2 @ guid @ p3 @ did @ tail)
              = Some (host, p2 @ guid @ p3 @ did @ tail)"
    using host by (intro match_class_plus_append) auto
  have s3: "match_literal cf ''/embed/'' (p2 @ guid @ p3 @ did @ tail)
              = Some (guid @ p3 @ did @ tail)"
    using p2 by (rule match_literal_append)
  have "\<not> not_slash (hd (p3 @ did @ tail))"
    using literal_starts_with_slash[OF cf, of p3 "''dashboards/''"] p3 by simp
  then have s4: "match_class_plus not_slash (guid @ p3 @ did @ tail)
              = Some (guid, p3 @ did @ tail)"
    using guid by (intro match_class_plus_append) auto
  have s5: "match_literal cf ''/dashboards/'' (p3 @ did @ tail) = Some (did @ tail)"
    using p3 by (rule match_literal_append)
  have s6: "match_class_plus word_or_hyphen (did @ tail) = Some (did, tail)"
    using did tail by (intro match_class_plus_append) auto
  show ?thesis
    unfolding dashboard_url_match_def by (simp add: s1 s2 s3 s4 s5 s6)
qed

lemma url_match_complete:
  assumes "slash_exact cf"
    and "map cf p1 = map cf ''https://''"
    and "host \<noteq> []" "list_all not_slash host"
    and "map cf p2 = map cf ''/embed/''"
    and "guid \<noteq> []" "list_all not_slash guid"
    and "map cf p3 = map cf ''/dashboards/''"
    and "did \<noteq> []" "list_all word_or_hyphen did"
    and tail: "tail = [] \<or> hd tail = CHR ''?''"
  shows "\<exists>full g2. dashboard_url_match cf (p1 @ host @ p2 @ guid @ p3 @ did @ tail)
            = Some [full, did, g2]"
proof -
  from tail have "tail = [] \<or> \<not> word_or_hyphen (hd tail)"
    using query_not_word by auto
  moreover obtain g2 where "match_query_or_end tail = Some g2"
    using tail by (cases tail) auto
  ultimately show ?thesis
    using url_match_prefix[OF assms(1-10), of tail] by simp
qed

lemma url_match_slash_after_id:
  assumes "slash_exact cf"
    and "map cf p1 = map cf ''https://''"
    and "host \<noteq> []" "list_all not_slash host"
    and "map cf p2 = map cf ''/embed/''"
    and "guid \<noteq> []" "list_all not_slash guid"
    and "map cf p3 = map cf ''/dashboards/''"
    and "did \<noteq> []" "list_all word_or_hyphen did"
  shows "dashboard_url_match cf (p1 @ host @ p2 @ guid @ p3 @ did @ CHR ''/'' # rest) = None"
  using url_match_prefix[OF assms(1-10), of "CHR ''/'' # rest"] slash_not_word by simp

lemma url_match_sound:
  assumes "dashboard_url_match cf u = Some ms"
  shows "\<exists>p1 host p2 guid p3 did tail full g2.
           u = p1 @ host @ p2 @ guid @ p3 @ did @ tail \<and> ms = [full, did, g2] \<and>
           map cf p1 = map cf ''https://'' \<and>
           host \<noteq> [] \<and> list_all not_slash host \<and>
           map cf p2 = map cf ''/embed/'' \<and>
           guid \<noteq> [] \<and> list_all not_slash guid \<and>
           map cf p3 = map cf ''/dashboards/'' \<and>
           did \<noteq> [] \<and> list_all word_or_hyphen did \<and>
           (tail = [] \<or> hd tail = CHR ''?'')"
proof -
  from assms obtain r1 host r2 r3 guid r4 r5 did r6 g2 where
    s1: "match_literal cf ''https://'' u = Some r1" and
    s2: "match_class_plus not_slash r1 = Some (host, r2)" and
    s3: "match_literal cf ''/embed/'' r2 = Some r3" and
    s4: "match_class_plus not_slash r3 = Some (guid, r4)" and
    s5: "match_literal cf ''/dashboards/'' r4 = Some r5" and
    s6: "match_class_plus word_or_hyphen r5 = Some (did, r6)" and
    s7: "match_query_or_end r6 = Some g2" and
    ms: "ms = [take (length u - length r6 + length g2) u, did, g2]"
    unfolding dashboard_url_match_def
    by (auto simp: bind_eq_Some_conv)
  from match_literal_SomeD[OF s1] obtain p1 where
    a1: "u = p1 @ r1" "map cf p1 = map cf ''https://''" by blast
  from match_class_plus_SomeD[OF s2] have
    a2: "r1 = host @ r2" "host \<noteq> []" "list_all not_slash host" by auto
  from match_literal_SomeD[OF s3] obtain p2 where
    a3: "r2 = p2 @ r3" "map cf p2 = map cf ''/embed/''" by blast
  from match_class_plus_SomeD[OF s4] have
    a4: "r3 = guid @ r4" "guid \<noteq> []" "list_all not_slash guid" by auto
  from match_literal_SomeD[OF s5] obtain p3 where
    a5: "r4 = p3 @ r5" "map cf p3 = map cf ''/dashboards/''" by blast
  from match_class_plus_SomeD[OF s6] have
    a6: "r5 = did @ r6" "did \<noteq> []" "list_all word_or_hyphen did" by auto
  from s7 have a7: "r6 = [] \<or> hd r6 = CHR ''?''"
    by (auto simp: match_query_or_end_iff)
  have "u = p1 @ host @ p2 @ guid @ p3 @ did @ r6"
    using a1 a2 a3 a4 a5 a6 by simp
  with ms a1 a2 a3 a4 a5 a6 a7 show ?thesis by blast
qed

lemma url_match_iff_grammar:
  assumes cf: "slash_exact cf"
  shows "(dashboard_url_match cf u \<noteq> None) = path_grammar cf u"
proof
  assume "dashboard_url_match cf u \<noteq> None"
  then obtain ms where "dashboard_url_match cf u = Some ms" by auto
  from url_match_sound[OF this] show "path_grammar cf u"
    unfolding path_grammar_def by blast
next
  assume "path_grammar cf u"
  then obtain p1 host p2 guid p3 did tail where
    "u = p1 @ host @ p2 @ guid @ p3 @ did @ tail"
    "map cf p1 = map cf ''https://''" "host \<noteq> []" "list_all not_slash host"
    "map cf p2 = map cf ''/embed/''" "guid \<noteq> []" "list_all not_slash guid"
    "map cf p3 = map cf ''/dashboards/''" "did \<noteq> []" "list_all word_or_hyphen did"
    "tail = [] \<or> hd tail = CHR ''?''"
    unfolding path_grammar_def by blast
  with url_match_complete[OF cf, of p1 host p2 guid p3 did tail]
  show "dashboard_url_match cf u \<noteq> None" by auto
qed

lemma canonicalize_slash: "canonicalize c = canonicalize CHR ''/'' \<Longrightarrow> c = CHR ''/''"
proof -
  assume a: "canonicalize c = canonicalize CHR ''/''"
  have s: "canonicalize CHR ''/'' = CHR ''/''" by (simp add: canonicalize_def)
  show ?thesis
  proof (cases "map_of (zip ''abcdefghijklmnopqrstuvwxyz'' ''ABCDEFGHIJKLMNOPQRSTUVWXYZ'') c")
    case None
    with a s show ?thesis by (simp add: canonicalize_def)
  next
    case (Some u)
    then have "u \<in> set ''ABCDEFGHIJKLMNOPQRSTUVWXYZ''"
      by (meson map_of_SomeD set_zip_rightD)
    moreover from Some a s have "u = CHR ''/''" by (simp add: canonicalize_def)
    ultimately show ?thesis by simp
  qed
qed

lemma slash_exact_canonicalize: "slash_exact canonicalize"
  unfolding slash_exact_def using canonicalize_slash by blast

lemma slash_exact_id: "slash_exact (\<lambda>c. c)"
  by (simp add: slash_exact_def)

lemma regex_exec_iff_grammar_ci:
  "(dashboard_regex_exec u \<noteq> None) = dashboard_path_grammar_ci u"
  unfolding dashboard_regex_exec_def dashboard_path_grammar_ci_def
  by (rule url_match_iff_grammar[OF slash_exact_canonicalize])

lemma strict_match_iff_grammar:
  "(dashboard_url_match (\<lambda>c. c) u \<noteq> None) = dashboard_path_grammar u"
  unfolding dashboard_path_grammar_def
  by (rule url_match_iff_grammar[OF slash_exact_id])

lemma extractExperienceFromUrl_no_match:
  "dashboard_regex_exec u = None \<Longrightarrow>
   extractExperienceFromUrl fo u w =
     (call_onChange fo
        (ChangeEvent INVALID_URL ERROR ''Invalid dashboard experience url''
           (JObj [(''url'', JStr u)])) w,
      Inl (Error ''Invalid dashboard experience URL''))"
  by (simp add: extractExperienceFromUrl_def)

lemma extractExperienceFromUrl_match:
  "dashboard_regex_exec u = Some [full, did, g2] \<Longrightarrow>
   extractExperienceFromUrl fo u w = (w, Inr \<lparr>experienceType = DASHBOARD, dashboardId = did\<rparr>)"
  by (simp add: extractExperienceFromUrl_def)

section \<open>Claims about extractExperienceFromUrl\<close>

text \<open>
  C5. Every URL of the form \<^verbatim>\<open>https://{host}/embed/{guid}/dashboards/{dashboardId}\<close>, with a
  non-empty slash-free host and guid and a non-empty dashboard id of word characters and
  hyphens, where the path ends after the id or a question mark and a query follow, is accepted
  by \<^verbatim>\<open>extractExperienceFromUrl\<close>: it returns, without calling \<^verbatim>\<open>onChange\<close>, an experience
  of type DASHBOARD whose dashboard id is the segment after \<^verbatim>\<open>/dashboards/\<close>. The visual URL
  with the same first segments, continued by \<^verbatim>\<open>/sheets/{sheetId}/visuals/{visualId}\<close>, is
  rejected with the invalid-URL error.
\<close>

theorem extractExperienceFromUrl_dashboard_grammar:
  assumes "host \<noteq> []" "list_all not_slash host"
    and "guid \<noteq> []" "list_all not_slash guid"
    and "did \<noteq> []" "list_all word_or_hyphen did"
    and "tail = [] \<or> (\<exists>query. tail = CHR ''?'' # query)"
  shows "extractExperienceFromUrl fo
           (''https://'' @ host @ ''/embed/'' @ guid @ ''/dashboards/'' @ did @ tail) w
         = (w, Inr \<lparr>experienceType = DASHBOARD, dashboardId = did\<rparr>)
       \<and> snd (extractExperienceFromUrl fo
           (''https://'' @ host @ ''/embed/'' @ guid @ ''/dashboards/'' @ did
              @ ''/sheets/'' @ sheetId @ ''/visuals/'' @ visualId) w)
         = Inl (Error ''Invalid dashboard experience URL'')"
proof -
  from assms(7) have tail: "tail = [] \<or> hd tail = CHR ''?''" by auto
  obtain full g2 where
    "dashboard_regex_exec (''https://'' @ host @ ''/embed/'' @ guid @ ''/dashboards/'' @ did @ tail)
       = Some [full, did, g2]"
    unfolding dashboard_regex_exec_def
    using url_match_complete[OF slash_exact_canonicalize refl assms(1,2) refl assms(3,4) refl
        assms(5,6) tail]
    by blast
  then have accept: "extractExperienceFromUrl fo
           (''https://'' @ host @ ''/embed/'' @ guid @ ''/dashboards/'' @ did @ tail) w
         = (w, Inr \<lparr>experienceType = DASHBOARD, dashboardId = did\<rparr>)"
    by (rule extractExperienceFromUrl_match)
  have "dashboard_regex_exec (''https://'' @ host @ ''/embed/'' @ guid @ ''/dashboards/'' @ did
          @ CHR ''/'' # (''sheets/'' @ sheetId @ ''/visuals/'' @ visualId)) = None"
    unfolding dashboard_regex_exec_def
    by (rule url_match_slash_after_id[OF slash_exact_canonicalize refl assms(1,2) refl
          assms(3,4) refl assms(5,6)])
  then have "dashboard_regex_exec (''https://'' @ host @ ''/embed/'' @ guid @ ''/dashboards/''
          @ did @ ''/sheets/'' @ sheetId @ ''/visuals/'' @ visualId) = None"
    by simp
  then have reject: "snd (extractExperienceFromUrl fo
           (''https://'' @ host @ ''/embed/'' @ guid @ ''/dashboards/'' @ did
              @ ''/sheets/'' @ sheetId @ ''/visuals/'' @ visualId) w)
         = Inl (Error ''Invalid dashboard experience URL'')"
    by (simp add: extractExperienceFromUrl_no_match)
  from accept reject show ?thesis by blast
qed

theorem extractExperienceFromUrl_dashboard_grammar_witness:
  "extractExperienceFromUrl (sample_frameOptions [])
     ''https://test.amazon.com/embed/guid/dashboards/testDashboardId?test=test'' empty_world
   = (empty_world, Inr \<lparr>experienceType = DASHBOARD, dashboardId = ''testDashboardId''\<rparr>)
   \<and> snd (extractExperienceFromUrl (sample_frameOptions [])
     ''https://test.amazon.com/embed/guid/dashboards/testDashboardId/sheets/testSheetId/visuals/testVisualId''
        empty_world)
   = Inl (Error ''Invalid dashboard experience URL'')"
  using extractExperienceFromUrl_dashboard_grammar
    [of "''test.amazon.com''" "''guid''" "''testDashboardId''" "''?test=test''"
        "sample_frameOptions []" empty_world "''testSheetId''" "''testVisualId''"]
  by (simp add: not_slash_def word_or_hyphen_def)


lemma url_sample_frameOptions: "url (sample_frameOptions u) = u"
  by (simp add: sample_frameOptions_def)

lemma BaseExperience_constructor_url_present:
  "url fo \<noteq> [] \<Longrightarrow> BaseExperience_constructor fo w = (w, None)"
  by (simp add: BaseExperience_constructor_def)

lemma regex_exec_empty: "dashboard_regex_exec [] = None"
  by (simp add: dashboard_regex_exec_def dashboard_url_match_def)

text \<open>
  C1, as the claim states it, fails twice. The empty URL is outside the grammar, but the base
  constructor rejects it first, and the error thrown is \<^verbatim>\<open>Url is required for the experience\<close>.
  And the pattern carries the \<^verbatim>\<open>i\<close> flag, so a URL whose fixed parts differ from the written
  grammar in letter case only is accepted and the experience is constructed.
\<close>

theorem constructor_invalid_url_counterexample:
  "\<not> dashboard_path_grammar []
   \<and> snd (DashboardExperience_constructor sample_base (sample_frameOptions []) [] empty_world)
     = Inl (Error ''Url is required for the experience'')
   \<and> \<not> dashboard_path_grammar ''https://h/EMBED/g/dashboards/d''
   \<and> DashboardExperience_constructor sample_base
        (sample_frameOptions ''https://h/EMBED/g/dashboards/d'') [] empty_world
     = (\<lparr>onChangeCalls = [],
         framesConstructed =
           [DashboardExperienceFrame (sample_frameOptions ''https://h/EMBED/g/dashboards/d'') []
              [(''locale'', JUndefined), (''footerPaddingEnabled'', JBool True),
               (''undoRedoDisabled'', JBool True), (''resetDisabled'', JBool True)]
              \<lparr>experienceType = DASHBOARD, dashboardId = ''d'',
               contextId = ''testContextId'', discriminator = 0\<rparr> ''d'']\<rparr>,
        Inr \<lparr>experience = \<lparr>experienceType = DASHBOARD, dashboardId = ''d''\<rparr>,
             internalExperience = \<lparr>experienceType = DASHBOARD, dashboardId = ''d'',
               contextId = ''testContextId'', discriminator = 0\<rparr>,
             experienceId = ''d'',
             experienceFrame =
               DashboardExperienceFrame (sample_frameOptions ''https://h/EMBED/g/dashboards/d'') []
                 [(''locale'', JUndefined), (''footerPaddingEnabled'', JBool True),
                  (''undoRedoDisabled'', JBool True), (''resetDisabled'', JBool True)]
                 \<lparr>experienceType = DASHBOARD, dashboardId = ''d'',
                  contextId = ''testContextId'', discriminator = 0\<rparr> ''d''\<rparr>)"
proof -
  have "dashboard_url_match (\<lambda>c. c) ''https://h/EMBED/g/dashboards/d'' = None"
    by (simp add: dashboard_url_match_def match_class_plus_def not_slash_def)
  then have a: "\<not> dashboard_path_grammar ''https://h/EMBED/g/dashboards/d''"
    using strict_match_iff_grammar[of "''https://h/EMBED/g/dashboards/d''"] by simp
  have m: "dashboard_regex_exec ''https://h/EMBED/g/dashboards/d''
             = Some [''https://h/EMBED/g/dashboards/d'', ''d'', []]"
    by (simp add: dashboard_regex_exec_def dashboard_url_match_def match_class_plus_def
        not_slash_def word_or_hyphen_def canonicalize_def)
  have b: "DashboardExperience_constructor sample_base
        (sample_frameOptions ''https://h/EMBED/g/dashboards/d'') [] empty_world
     = (\<lparr>onChangeCalls = [],
         framesConstructed =
           [DashboardExperienceFrame (sample_frameOptions ''https://h/EMBED/g/dashboards/d'') []
              [(''locale'', JUndefined), (''footerPaddingEnabled'', JBool True),
               (''undoRedoDisabled'', JBool True), (''resetDisabled'', JBool True)]
              \<lparr>experienceType = DASHBOARD, dashboardId = ''d'',
               contextId = ''testContextId'', discriminator = 0\<rparr> ''d'']\<rparr>,
        Inr \<lparr>experience = \<lparr>experienceType = DASHBOARD, dashboardId = ''d''\<rparr>,
             internalExperience = \<lparr>experienceType = DASHBOARD, dashboardId = ''d'',
               contextId = ''testContextId'', discriminator = 0\<rparr>,
             experienceId = ''d'',
             experienceFrame =
               DashboardExperienceFrame (sample_frameOptions ''https://h/EMBED/g/dashboards/d'') []
                 [(''locale'', JUndefined), (''footerPaddingEnabled'', JBool True),
                  (''undoRedoDisabled'', JBool True), (''resetDisabled'', JBool True)]
                 \<lparr>experienceType = DASHBOARD, dashboardId = ''d'',
                  contextId = ''testContextId'', discriminator = 0\<rparr> ''d''\<rparr>)"
    by (simp add: DashboardExperience_constructor_def url_sample_frameOptions
        BaseExperience_constructor_url_present
        extractExperienceFromUrl_match[OF m]
        sample_base_def sample_getInternalExperienceInfo_def
        transformDashboardContentOptions_def transformContentOptions_spec_def
        rest_properties_def object_keys_def spread_into_def own_prop_def
        assign_dashboard_options_def assign_if_def empty_world_def Let_def)
  have "dashboard_url_match (\<lambda>c. c) [] = None"
    by (simp add: dashboard_url_match_def)
  then have c: "\<not> dashboard_path_grammar []"
    using strict_match_iff_grammar[of "[]"] by simp
  have d: "snd (DashboardExperience_constructor sample_base (sample_frameOptions []) []
                  empty_world)
             = Inl (Error ''Url is required for the experience'')"
    by (simp add: DashboardExperience_constructor_def BaseExperience_constructor_def
        url_sample_frameOptions)
  from a b c d show ?thesis by blast
qed

text \<open>
  C1, amended. For every non-empty URL that does not match the dashboard path grammar with
  the letter case of its fixed parts (\<^verbatim>\<open>https\<close>, \<^verbatim>\<open>embed\<close>, \<^verbatim>\<open>dashboards\<close>) ignored, the
  constructor throws the error \<^verbatim>\<open>Invalid dashboard experience URL\<close>; before that, if the host
  supplied \<^verbatim>\<open>onChange\<close>, it is called exactly once, with an INVALID_URL change event at level
  ERROR that carries the URL; no experience object results and no frame is constructed.
\<close>

theorem constructor_rejects_url_outside_grammar:
  assumes "url fo \<noteq> []" and "\<not> dashboard_path_grammar_ci (url fo)"
  shows "DashboardExperience_constructor base fo co w =
           (w\<lparr>onChangeCalls := onChangeCalls w @
                 (if onChange fo
                  then [(ChangeEvent INVALID_URL ERROR ''Invalid dashboard experience url''
                           (JObj [(''url'', JStr (url fo))]), JObj [(''frame'', JNull)])]
                  else [])\<rparr>,
            Inl (Error ''Invalid dashboard experience URL''))"
proof -
  from assms(2) have "dashboard_regex_exec (url fo) = None"
    using regex_exec_iff_grammar_ci[of "url fo"] by simp
  then show ?thesis
    by (simp add: DashboardExperience_constructor_def
        BaseExperience_constructor_url_present[OF assms(1)]
        extractExperienceFromUrl_no_match call_onChange_def)
qed

theorem constructor_rejects_url_outside_grammar_witness:
  "DashboardExperience_constructor sample_base
     (sample_frameOptions ''http://test.amazon.com/embed/guid/dashboards/testDashboardId'')
     [] empty_world =
   (\<lparr>onChangeCalls =
        [(ChangeEvent INVALID_URL ERROR ''Invalid dashboard experience url''
            (JObj [(''url'',
               JStr ''http://test.amazon.com/embed/guid/dashboards/testDashboardId'')]),
          JObj [(''frame'', JNull)])],
      framesConstructed = []\<rparr>,
    Inl (Error ''Invalid dashboard experience URL''))"
proof -
  have "dashboard_regex_exec ''http://test.amazon.com/embed/guid/dashboards/testDashboardId''
          = None"
    by (simp add: dashboard_regex_exec_def dashboard_url_match_def canonicalize_def)
  then have "\<not> dashboard_path_grammar_ci
                 (url (sample_frameOptions
                    ''http://test.amazon.com/embed/guid/dashboards/testDashboardId''))"
    using regex_exec_iff_grammar_ci
      [of "''http://test.amazon.com/embed/guid/dashboards/testDashboardId''"]
    by (simp add: sample_frameOptions_def)
  moreover have "url (sample_frameOptions
                    ''http://test.amazon.com/embed/guid/dashboards/testDashboardId'') \<noteq> []"
    by (simp add: sample_frameOptions_def)
  ultimately have "DashboardExperience_constructor sample_base
     (sample_frameOptions ''http://test.amazon.com/embed/guid/dashboards/testDashboardId'')
     [] empty_world =
     (empty_world\<lparr>onChangeCalls := onChangeCalls empty_world @
         (if onChange (sample_frameOptions
               ''http://test.amazon.com/embed/guid/dashboards/testDashboardId'')
          then [(ChangeEvent INVALID_URL ERROR ''Invalid dashboard experience url''
                   (JObj [(''url'', JStr (url (sample_frameOptions
                      ''http://test.amazon.com/embed/guid/dashboards/testDashboardId'')))]),
                 JObj [(''frame'', JNull)])]
          else [])\<rparr>,
      Inl (Error ''Invalid dashboard experience URL''))"
    using constructor_rejects_url_outside_grammar
      [of "sample_frameOptions ''http://test.amazon.com/embed/guid/dashboards/testDashboardId''"
          sample_base "[]" empty_world]
    by blast
  then show ?thesis
    by (simp add: sample_frameOptions_def empty_world_def)
qed

section \<open>Claims about the requests and the interception hook\<close>

lemma nullish_coalesce_absent:
  "nullish response \<or> nullish (opt_member response ''message'') \<Longrightarrow>
   nullish_coalesce (opt_member response ''message'') d = d"
  by (cases response) (auto simp: nullish_coalesce_def)

text \<open>
  C3. When the channel fulfils the request with a response that is \<^verbatim>\<open>undefined\<close> or \<^verbatim>\<open>null\<close>,
  or whose \<^verbatim>\<open>message\<close> is \<^verbatim>\<open>undefined\<close> or \<^verbatim>\<open>null\<close>, then \<^verbatim>\<open>getParameters\<close>, \<^verbatim>\<open>getSheets\<close>,
  \<^verbatim>\<open>getVisualActions\<close> and \<^verbatim>\<open>getSheetVisuals\<close> are fulfilled with the empty array and
  \<^verbatim>\<open>getSelectedSheetId\<close> with the empty string; none of them is rejected.
\<close>

theorem getters_default_on_absent_payload:
  assumes "nullish response \<or> nullish (opt_member response ''message'')"
  shows "(send (EmbeddingMessageEvent GET_PARAMETERS JUndefined) = Fulfilled response
            \<longrightarrow> getParameters send = Fulfilled (JArr []))
       \<and> (send (EmbeddingMessageEvent GET_SHEETS JUndefined) = Fulfilled response
            \<longrightarrow> getSheets send = Fulfilled (JArr []))
       \<and> (send (EmbeddingMessageEvent GET_VISUAL_ACTIONS
                   (JObj [(''SheetId'', JStr sheetId), (''VisualId'', JStr visualId)]))
              = Fulfilled response
            \<longrightarrow> getVisualActions send sheetId visualId = Fulfilled (JArr []))
       \<and> (send (EmbeddingMessageEvent GET_SHEET_VISUALS (JObj [(''SheetId'', JStr sheetId)]))
              = Fulfilled response
            \<longrightarrow> getSheetVisuals send sheetId = Fulfilled (JArr []))
       \<and> (send (EmbeddingMessageEvent GET_SELECTED_SHEET_ID JUndefined) = Fulfilled response
            \<longrightarrow> getSelectedSheetId send = Fulfilled (JStr []))"
  using nullish_coalesce_absent[OF assms]
  by (simp add: getParameters_def getSheets_def getVisualActions_def getSheetVisuals_def
      getSelectedSheetId_def)

theorem getters_default_on_absent_payload_witness:
  "getParameters (send_answering JUndefined) = Fulfilled (JArr [])
   \<and> getSheets (send_answering JNull) = Fulfilled (JArr [])
   \<and> getVisualActions (send_answering (JObj [])) ''s'' ''v'' = Fulfilled (JArr [])
   \<and> getSheetVisuals (send_answering (JObj [(''message'', JNull)])) ''s'' = Fulfilled (JArr [])
   \<and> getSelectedSheetId (send_answering (JObj [(''message'', JUndefined)])) = Fulfilled (JStr [])"
  using getters_default_on_absent_payload[of JUndefined "send_answering JUndefined"]
    getters_default_on_absent_payload[of JNull "send_answering JNull"]
    getters_default_on_absent_payload[of "JObj []" "send_answering (JObj [])" "''s''" "''v''"]
    getters_default_on_absent_payload[of "JObj [(''message'', JNull)]"
      "send_answering (JObj [(''message'', JNull)])" "''s''"]
    getters_default_on_absent_payload[of "JObj [(''message'', JUndefined)]"
      "send_answering (JObj [(''message'', JUndefined)])"]
  by (simp add: send_answering_def own_prop_def)

text \<open>
  C4. On a message event named \<^verbatim>\<open>SIZE_CHANGED\<close>, with \<^verbatim>\<open>resizeHeightOnSizeChangedEvent\<close> true,
  the hook sets the \<^verbatim>\<open>height\<close> attribute of the frame element to the text of the payload's
  height followed by \<^verbatim>\<open>px\<close>, and changes nothing else. When the option is false or absent (or
  any other falsy value), or the event has another name, the hook leaves the metadata and its
  frame element as they are.
\<close>

theorem interceptMessage_resizes_on_size_changed:
  "(own_prop messageEvent ''eventName'' = JStr ''SIZE_CHANGED'' \<and>
    resizeHeightOnSizeChangedEvent fo = JBool True \<longrightarrow>
      interceptMessage fo messageEvent (Some \<lparr>frame = Some el\<rparr>) =
        Some \<lparr>frame = Some (el(''height'' \<mapsto>
          to_string (opt_member (own_prop messageEvent ''message'') ''height'') @ ''px''))\<rparr>)
   \<and> (own_prop messageEvent ''eventName'' \<noteq> JStr ''SIZE_CHANGED'' \<or>
      \<not> truthy (resizeHeightOnSizeChangedEvent fo) \<longrightarrow>
        interceptMessage fo messageEvent metadata = metadata)
   \<and> \<not> truthy (JBool False) \<and> \<not> truthy JUndefined"
  by (auto simp: interceptMessage_def)

theorem interceptMessage_resizes_on_size_changed_witness:
  "interceptMessage (sample_frameOptions [])
     [(''eventName'', JStr ''SIZE_CHANGED''), (''message'', JObj [(''height'', JStr ''500'')])]
     (Some \<lparr>frame = Some [''height'' \<mapsto> ''0px'']\<rparr>)
   = Some \<lparr>frame = Some [''height'' \<mapsto> ''500px'']\<rparr>
   \<and> interceptMessage ((sample_frameOptions [])\<lparr>resizeHeightOnSizeChangedEvent := JBool False\<rparr>)
     [(''eventName'', JStr ''SIZE_CHANGED''), (''message'', JObj [(''height'', JStr ''500'')])]
     (Some \<lparr>frame = Some [''height'' \<mapsto> ''0px'']\<rparr>)
   = Some \<lparr>frame = Some [''height'' \<mapsto> ''0px'']\<rparr>"
  using interceptMessage_resizes_on_size_changed
    [of "[(''eventName'', JStr ''SIZE_CHANGED''), (''message'', JObj [(''height'', JStr ''500'')])]"
      "sample_frameOptions []" "[''height'' \<mapsto> ''0px'']"]
    interceptMessage_resizes_on_size_changed
    [of "[(''eventName'', JStr ''SIZE_CHANGED''), (''message'', JObj [(''height'', JStr ''500'')])]"
      "(sample_frameOptions [])\<lparr>resizeHeightOnSizeChangedEvent := JBool False\<rparr>" _
      "Some \<lparr>frame = Some [''height'' \<mapsto> ''0px'']\<rparr>"]
  by (simp add: sample_frameOptions_def own_prop_def)


section \<open>Reading and writing properties\<close>

lemma own_prop_set_prop:
  "own_prop (set_prop k v obj) k' = (if k' = k then v else own_prop obj k')"
  by (induction obj) (auto simp: own_prop_def)

lemma object_keys_set_prop:
  "object_keys (set_prop k v obj) =
     (if k \<in> set (object_keys obj) then object_keys obj else object_keys obj @ [k])"
  by (induction obj) (force simp: object_keys_def)+

lemma keys_set_prop:
  "set (object_keys (set_prop k v obj)) = insert k (set (object_keys obj))"
  by (auto simp: object_keys_set_prop)

lemma own_prop_assign_if:
  "own_prop (assign_if c k v obj) k' = (if c \<and> k' = k then v else own_prop obj k')"
  by (simp add: assign_if_def own_prop_set_prop)

lemma keys_assign_if:
  "set (object_keys (assign_if c k v obj)) =
     (if c then insert k (set (object_keys obj)) else set (object_keys obj))"
  by (simp add: assign_if_def keys_set_prop)

lemma set_prop_fresh:
  "k \<notin> set (object_keys obj) \<Longrightarrow> set_prop k v obj = obj @ [(k, v)]"
  by (induction obj) (auto simp: object_keys_def)

lemma guarded_read_cannot_raise:
  "truthy (opt_member v k) \<Longrightarrow> get_member v k = Inr (opt_member v k)"
  by (cases v) auto

lemma sheetTabsDisabled_assigned:
  "own_prop (assign_dashboard_options attributionOptions sheetOptions toolbarOptions t1)
     ''sheetTabsDisabled'' =
   (case opt_member sheetOptions ''singleSheet'' of
      JBool b \<Rightarrow> JBool b
    | _ \<Rightarrow> own_prop t1 ''sheetTabsDisabled'')"
  by (simp add: assign_dashboard_options_def Let_def own_prop_assign_if split: js_value.split)

lemma undoRedoDisabled_assigned:
  "own_prop (assign_dashboard_options attributionOptions sheetOptions toolbarOptions t1)
     ''undoRedoDisabled'' =
   (if opt_member toolbarOptions ''undoRedo'' = JBool True
    then own_prop t1 ''undoRedoDisabled'' else JBool True)"
  by (simp add: assign_dashboard_options_def Let_def own_prop_assign_if)

lemma resetDisabled_assigned:
  "own_prop (assign_dashboard_options attributionOptions sheetOptions toolbarOptions t1)
     ''resetDisabled'' =
   (if opt_member toolbarOptions ''reset'' = JBool True
    then own_prop t1 ''resetDisabled'' else JBool True)"
  by (simp add: assign_dashboard_options_def Let_def own_prop_assign_if)

lemma footerPaddingEnabled_assigned:
  "own_prop (assign_dashboard_options attributionOptions sheetOptions toolbarOptions t1)
     ''footerPaddingEnabled'' =
   (if opt_member attributionOptions ''overlayContent'' = JBool True
    then own_prop t1 ''footerPaddingEnabled'' else JBool True)"
  by (simp add: assign_dashboard_options_def Let_def own_prop_assign_if)

lemma printEnabled_assigned:
  "own_prop (assign_dashboard_options attributionOptions sheetOptions toolbarOptions t1)
     ''printEnabled'' =
   (if truthy (opt_member toolbarOptions ''export'') \<or>
       truthy (opt_member (opt_member toolbarOptions ''export'') ''print'')
    then JBool True else own_prop t1 ''printEnabled'')"
  by (simp add: assign_dashboard_options_def Let_def own_prop_assign_if)

lemma other_properties_kept:
  "k \<notin> {''footerPaddingEnabled'', ''printEnabled'', ''undoRedoDisabled'', ''resetDisabled'',
         ''showBookmarksIcon'', ''sheetId'', ''sheetTabsDisabled'', ''resizeOnSheetChange''} \<Longrightarrow>
   own_prop (assign_dashboard_options attributionOptions sheetOptions toolbarOptions t1) k =
   own_prop t1 k"
  by (simp add: assign_dashboard_options_def Let_def own_prop_assign_if)

lemma keys_assign_dashboard_options_lower:
  "set (object_keys t1) \<subseteq>
   set (object_keys (assign_dashboard_options attributionOptions sheetOptions toolbarOptions t1))"
  unfolding assign_dashboard_options_def Let_def keys_assign_if
  by auto

lemma keys_assign_dashboard_options_upper:
  "set (object_keys (assign_dashboard_options attributionOptions sheetOptions toolbarOptions t1))
   \<subseteq> set (object_keys t1) \<union>
     {''footerPaddingEnabled'', ''printEnabled'', ''undoRedoDisabled'', ''resetDisabled'',
      ''showBookmarksIcon'', ''sheetId'', ''sheetTabsDisabled'', ''resizeOnSheetChange''}"
  unfolding assign_dashboard_options_def Let_def keys_assign_if
  by auto

section \<open>transformDashboardContentOptions returns\<close>

lemma get_member_not_nullish: "\<not> nullish p \<Longrightarrow> \<exists>v. get_member p k = Inr v"
  by (cases p) auto

lemma reduce_parameters_readable:
  "list_all (\<lambda>p. \<not> nullish p) ps \<Longrightarrow> \<exists>obj. reduce_parameters ps acc = Inr obj"
proof (induction ps arbitrary: acc)
  case Nil
  then show ?case by simp
next
  case (Cons p ps)
  then have "\<not> nullish p" and rest: "list_all (\<lambda>p. \<not> nullish p) ps" by auto
  then obtain n v where "get_member p ''Name'' = Inr n" "get_member p ''Values'' = Inr v"
    using get_member_not_nullish by blast
  with Cons.IH[OF rest] show ?case by simp
qed

lemma transformDashboardContentOptions_with_parameters:
  assumes "own_prop co ''parameters'' = JArr ps" and "reduce_parameters ps [] = Inr obj"
  shows "transformDashboardContentOptions base fo co w =
          (fst (base_transformed base fo co w),
           Inr (assign_dashboard_options (own_prop co ''attributionOptions'')
                  (own_prop co ''sheetOptions'') (own_prop co ''toolbarOptions'')
                  (set_prop ''parameters'' (JObj obj) (snd (base_transformed base fo co w)))))"
  using assms
  by (simp add: transformDashboardContentOptions_def base_transformed_def split: prod.split)

lemma transformDashboardContentOptions_without_parameters:
  assumes "\<nexists>ps. own_prop co ''parameters'' = JArr ps"
  shows "transformDashboardContentOptions base fo co w =
          (fst (base_transformed base fo co w),
           Inr (assign_dashboard_options (own_prop co ''attributionOptions'')
                  (own_prop co ''sheetOptions'') (own_prop co ''toolbarOptions'')
                  (snd (base_transformed base fo co w))))"
  using assms
  by (cases "own_prop co ''parameters''")
     (simp_all add: transformDashboardContentOptions_def base_transformed_def split: prod.split)

text \<open>
  With a readable \<^verbatim>\<open>parameters\<close> option the transformation returns. Its result is the chain
  of guarded assignments applied to an object that agrees with the one the base class
  returned on every property but \<^verbatim>\<open>parameters\<close>; the world is the one the base class left.
\<close>

lemma transformDashboardContentOptions_returns:
  assumes "parameters_readable (own_prop co ''parameters'')"
  shows "\<exists>t1. transformDashboardContentOptions base fo co w =
                (fst (base_transformed base fo co w),
                 Inr (assign_dashboard_options (own_prop co ''attributionOptions'')
                        (own_prop co ''sheetOptions'') (own_prop co ''toolbarOptions'') t1))
            \<and> (\<forall>k. k \<noteq> ''parameters'' \<longrightarrow>
                   own_prop t1 k = own_prop (snd (base_transformed base fo co w)) k)
            \<and> set (object_keys (snd (base_transformed base fo co w))) \<subseteq> set (object_keys t1)
            \<and> set (object_keys t1) \<subseteq>
                insert ''parameters'' (set (object_keys (snd (base_transformed base fo co w))))"
proof (cases "\<exists>ps. own_prop co ''parameters'' = JArr ps")
  case True
  then obtain ps where ps: "own_prop co ''parameters'' = JArr ps" by blast
  with assms have "list_all (\<lambda>p. \<not> nullish p) ps" by simp
  then obtain obj where obj: "reduce_parameters ps [] = Inr obj"
    using reduce_parameters_readable by blast
  let ?t0 = "snd (base_transformed base fo co w)"
  from transformDashboardContentOptions_with_parameters[OF ps obj, of base fo w]
  show ?thesis
    by (intro exI[of _ "set_prop ''parameters'' (JObj obj) ?t0"])
       (auto simp: own_prop_set_prop keys_set_prop)
next
  case False
  let ?t0 = "snd (base_transformed base fo co w)"
  from transformDashboardContentOptions_without_parameters[OF False, of base fo w]
  show ?thesis
    by (intro exI[of _ ?t0]) auto
qed

section \<open>Claims about the dashboard-specific options\<close>

text \<open>
  C7. Whenever the \<^verbatim>\<open>parameters\<close> option is readable, \<^verbatim>\<open>transformDashboardContentOptions\<close>
  returns, and in the transformed options \<^verbatim>\<open>sheetTabsDisabled\<close> is \<open>b\<close> when
  \<^verbatim>\<open>sheetOptions.singleSheet\<close> is the boolean \<open>b\<close>; when \<^verbatim>\<open>singleSheet\<close> is absent or not a
  boolean, the function does not set \<^verbatim>\<open>sheetTabsDisabled\<close>: the property is as the base class
  left it.
\<close>

theorem singleSheet_becomes_sheetTabsDisabled:
  assumes "parameters_readable (own_prop co ''parameters'')"
  shows "\<exists>tco. transformDashboardContentOptions base fo co w =
                  (fst (base_transformed base fo co w), Inr tco)
           \<and> own_prop tco ''sheetTabsDisabled'' =
               (case opt_member (own_prop co ''sheetOptions'') ''singleSheet'' of
                  JBool b \<Rightarrow> JBool b
                | _ \<Rightarrow> own_prop (snd (base_transformed base fo co w)) ''sheetTabsDisabled'')"
proof -
  from transformDashboardContentOptions_returns[OF assms, of base fo w]
  obtain t1 where
    r: "transformDashboardContentOptions base fo co w =
          (fst (base_transformed base fo co w),
           Inr (assign_dashboard_options (own_prop co ''attributionOptions'')
                  (own_prop co ''sheetOptions'') (own_prop co ''toolbarOptions'') t1))"
    and t1: "\<forall>k. k \<noteq> ''parameters'' \<longrightarrow>
               own_prop t1 k = own_prop (snd (base_transformed base fo co w)) k"
    by blast
  from t1 have "own_prop t1 ''sheetTabsDisabled'' =
                  own_prop (snd (base_transformed base fo co w)) ''sheetTabsDisabled''"
    by simp
  then have "own_prop (assign_dashboard_options (own_prop co ''attributionOptions'')
                  (own_prop co ''sheetOptions'') (own_prop co ''toolbarOptions'') t1)
               ''sheetTabsDisabled'' =
             (case opt_member (own_prop co ''sheetOptions'') ''singleSheet'' of
                  JBool b \<Rightarrow> JBool b
                | _ \<Rightarrow> own_prop (snd (base_transformed base fo co w)) ''sheetTabsDisabled'')"
    by (simp add: sheetTabsDisabled_assigned split: js_value.split)
  with r show ?thesis by blast
qed


theorem singleSheet_becomes_sheetTabsDisabled_witness:
  "(\<exists>tco. transformDashboardContentOptions sample_base (sample_frameOptions [])
             [(''sheetOptions'', JObj [(''singleSheet'', JBool False)])] empty_world
           = (empty_world, Inr tco)
         \<and> own_prop tco ''sheetTabsDisabled'' = JBool False)
   \<and> (\<exists>tco. transformDashboardContentOptions sample_base (sample_frameOptions [])
             [(''sheetOptions'', JObj [(''singleSheet'', JStr ''yes'')])] empty_world
           = (empty_world, Inr tco)
         \<and> own_prop tco ''sheetTabsDisabled'' = JUndefined)"
  using singleSheet_becomes_sheetTabsDisabled
    [of "[(''sheetOptions'', JObj [(''singleSheet'', JBool False)])]"
      sample_base "sample_frameOptions []" empty_world]
    singleSheet_becomes_sheetTabsDisabled
    [of "[(''sheetOptions'', JObj [(''singleSheet'', JStr ''yes'')])]"
      sample_base "sample_frameOptions []" empty_world]
  by (simp add: own_prop_def base_transformed_def sample_base_def
      transformContentOptions_spec_def rest_properties_def recognized_option_names_def
      object_keys_def spread_into_def)

text \<open>
  C8. Whenever the \<^verbatim>\<open>parameters\<close> option is readable, \<^verbatim>\<open>transformDashboardContentOptions\<close>
  returns, and in the transformed options \<^verbatim>\<open>undoRedoDisabled\<close> is true unless
  \<^verbatim>\<open>toolbarOptions.undoRedo\<close> is exactly \<^verbatim>\<open>true\<close>, \<^verbatim>\<open>resetDisabled\<close> is true unless
  \<^verbatim>\<open>toolbarOptions.reset\<close> is exactly \<^verbatim>\<open>true\<close>, and \<^verbatim>\<open>footerPaddingEnabled\<close> is true unless
  \<^verbatim>\<open>attributionOptions.overlayContent\<close> is exactly \<^verbatim>\<open>true\<close>; in the excepted case the function
  does not write the property, which is as the base class left it. A truthy value other than
  \<^verbatim>\<open>true\<close>, such as the number 1 or a non-empty string, is not the excepted case.
\<close>

theorem toolbar_and_attribution_options_need_exactly_true:
  assumes "parameters_readable (own_prop co ''parameters'')"
  shows "\<exists>tco. transformDashboardContentOptions base fo co w =
                  (fst (base_transformed base fo co w), Inr tco)
           \<and> own_prop tco ''undoRedoDisabled'' =
               (if opt_member (own_prop co ''toolbarOptions'') ''undoRedo'' = JBool True
                then own_prop (snd (base_transformed base fo co w)) ''undoRedoDisabled''
                else JBool True)
           \<and> own_prop tco ''resetDisabled'' =
               (if opt_member (own_prop co ''toolbarOptions'') ''reset'' = JBool True
                then own_prop (snd (base_transformed base fo co w)) ''resetDisabled''
                else JBool True)
           \<and> own_prop tco ''footerPaddingEnabled'' =
               (if opt_member (own_prop co ''attributionOptions'') ''overlayContent'' = JBool True
                then own_prop (snd (base_transformed base fo co w)) ''footerPaddingEnabled''
                else JBool True)"
proof -
  from transformDashboardContentOptions_returns[OF assms, of base fo w]
  obtain t1 where
    r: "transformDashboardContentOptions base fo co w =
          (fst (base_transformed base fo co w),
           Inr (assign_dashboard_options (own_prop co ''attributionOptions'')
                  (own_prop co ''sheetOptions'') (own_prop co ''toolbarOptions'') t1))"
    and t1: "\<forall>k. k \<noteq> ''parameters'' \<longrightarrow>
               own_prop t1 k = own_prop (snd (base_transformed base fo co w)) k"
    by blast
  from t1 have
    "own_prop t1 ''undoRedoDisabled'' =
       own_prop (snd (base_transformed base fo co w)) ''undoRedoDisabled''"
    "own_prop t1 ''resetDisabled'' =
       own_prop (snd (base_transformed base fo co w)) ''resetDisabled''"
    "own_prop t1 ''footerPaddingEnabled'' =
       own_prop (snd (base_transformed base fo co w)) ''footerPaddingEnabled''"
    by simp_all
  with r show ?thesis
    by (simp add: undoRedoDisabled_assigned resetDisabled_assigned
        footerPaddingEnabled_assigned)
qed

theorem toolbar_and_attribution_options_need_exactly_true_witness:
  "\<exists>tco. transformDashboardContentOptions sample_base (sample_frameOptions [])
            [(''toolbarOptions'', JObj [(''undoRedo'', JNum 1), (''reset'', JBool True)]),
             (''attributionOptions'', JObj [(''overlayContent'', JStr ''yes'')])] empty_world
          = (empty_world, Inr tco)
        \<and> own_prop tco ''undoRedoDisabled'' = JBool True
        \<and> own_prop tco ''resetDisabled'' = JUndefined
        \<and> own_prop tco ''footerPaddingEnabled'' = JBool True"
  using toolbar_and_attribution_options_need_exactly_true
    [of "[(''toolbarOptions'', JObj [(''undoRedo'', JNum 1), (''reset'', JBool True)]),
          (''attributionOptions'', JObj [(''overlayContent'', JStr ''yes'')])]"
      sample_base "sample_frameOptions []" empty_world]
  by (simp add: own_prop_def base_transformed_def sample_base_def
      transformContentOptions_spec_def rest_properties_def recognized_option_names_def
      object_keys_def spread_into_def)

lemma truthy_member_of_truthy: "truthy (opt_member e k) \<Longrightarrow> truthy e"
  by (cases e) auto

text \<open>
  C9. Whenever the \<^verbatim>\<open>parameters\<close> option is readable, \<^verbatim>\<open>transformDashboardContentOptions\<close>
  returns, and it sets \<^verbatim>\<open>printEnabled\<close> to true exactly when \<^verbatim>\<open>toolbarOptions.export\<close> is
  truthy; otherwise it does not write the property, which is as the base class left it. The
  second operand of the disjunction, \<^verbatim>\<open>export.print\<close>, changes nothing: the disjunction is
  truthy exactly when \<^verbatim>\<open>export\<close> is.
\<close>

theorem printEnabled_follows_export_only:
  assumes "parameters_readable (own_prop co ''parameters'')"
  shows "\<exists>tco. transformDashboardContentOptions base fo co w =
                  (fst (base_transformed base fo co w), Inr tco)
           \<and> own_prop tco ''printEnabled'' =
               (if truthy (opt_member (own_prop co ''toolbarOptions'') ''export'')
                then JBool True
                else own_prop (snd (base_transformed base fo co w)) ''printEnabled'')
           \<and> (truthy (opt_member (own_prop co ''toolbarOptions'') ''export'') \<or>
              truthy (opt_member (opt_member (own_prop co ''toolbarOptions'') ''export'')
                        ''print''))
             = truthy (opt_member (own_prop co ''toolbarOptions'') ''export'')"
proof -
  from transformDashboardContentOptions_returns[OF assms, of base fo w]
  obtain t1 where
    r: "transformDashboardContentOptions base fo co w =
          (fst (base_transformed base fo co w),
           Inr (assign_dashboard_options (own_prop co ''attributionOptions'')
                  (own_prop co ''sheetOptions'') (own_prop co ''toolbarOptions'') t1))"
    and t1: "\<forall>k. k \<noteq> ''parameters'' \<longrightarrow>
               own_prop t1 k = own_prop (snd (base_transformed base fo co w)) k"
    by blast
  have d: "(truthy (opt_member (own_prop co ''toolbarOptions'') ''export'') \<or>
            truthy (opt_member (opt_member (own_prop co ''toolbarOptions'') ''export'')
                      ''print''))
           = truthy (opt_member (own_prop co ''toolbarOptions'') ''export'')"
    using truthy_member_of_truthy by blast
  from t1 have "own_prop t1 ''printEnabled'' =
                  own_prop (snd (base_transformed base fo co w)) ''printEnabled''"
    by simp
  with r d show ?thesis
    by (simp add: printEnabled_assigned)
qed

theorem printEnabled_follows_export_only_witness:
  "(\<exists>tco. transformDashboardContentOptions sample_base (sample_frameOptions [])
            [(''toolbarOptions'', JObj [(''export'', JObj [(''print'', JBool False)])])]
            empty_world
          = (empty_world, Inr tco)
        \<and> own_prop tco ''printEnabled'' = JBool True)
   \<and> (\<exists>tco. transformDashboardContentOptions sample_base (sample_frameOptions [])
            [(''toolbarOptions'', JObj [(''export'', JBool False)])] empty_world
          = (empty_world, Inr tco)
        \<and> own_prop tco ''printEnabled'' = JUndefined)"
  using printEnabled_follows_export_only
    [of "[(''toolbarOptions'', JObj [(''export'', JObj [(''print'', JBool False)])])]"
      sample_base "sample_frameOptions []" empty_world]
    printEnabled_follows_export_only
    [of "[(''toolbarOptions'', JObj [(''export'', JBool False)])]"
      sample_base "sample_frameOptions []" empty_world]
  by (simp add: own_prop_def base_transformed_def sample_base_def
      transformContentOptions_spec_def rest_properties_def recognized_option_names_def
      object_keys_def spread_into_def)


section \<open>The base transformation as the specification describes it\<close>

lemma object_keys_Nil: "object_keys [] = []"
  by (simp add: object_keys_def)

lemma object_keys_Cons: "object_keys ((k, v) # obj) = k # object_keys obj"
  by (simp add: object_keys_def)

lemma own_prop_Cons: "own_prop ((k', v') # obj) k = (if k = k' then v' else own_prop obj k)"
  by (simp add: own_prop_def)

lemma object_keys_rest_properties:
  "object_keys (rest_properties names obj) = filter (\<lambda>k. k \<notin> set names) (object_keys obj)"
  by (induction obj) (auto simp: object_keys_def rest_properties_def)

lemma own_prop_rest_properties:
  "own_prop (rest_properties names obj) k = (if k \<in> set names then JUndefined else own_prop obj k)"
  by (induction obj) (auto simp: own_prop_def rest_properties_def)

lemma keys_spread_into:
  "set (object_keys (spread_into a b)) = set (object_keys a) \<union> set (object_keys b)"
proof -
  have "set (object_keys (fold (\<lambda>(k, v). set_prop k v) b a))
          = set (object_keys a) \<union> set (object_keys b)" for a
  proof (induction b arbitrary: a)
    case Nil
    then show ?case by (simp add: object_keys_Nil)
  next
    case (Cons kv b)
    obtain k v where kv: "kv = (k, v)" by (cases kv)
    have "set (object_keys (fold (\<lambda>(k, v). set_prop k v) b (set_prop k v a)))
            = set (object_keys (set_prop k v a)) \<union> set (object_keys b)"
      by (rule Cons.IH)
    then show ?case
      by (auto simp: kv keys_set_prop object_keys_Cons)
  qed
  then show ?thesis by (simp add: spread_into_def)
qed

lemma own_prop_spread_into:
  assumes "distinct (object_keys b)"
  shows "own_prop (spread_into a b) k =
           (if k \<in> set (object_keys b) then own_prop b k else own_prop a k)"
proof -
  have "distinct (object_keys b) \<Longrightarrow>
        own_prop (fold (\<lambda>(k, v). set_prop k v) b a) k =
          (if k \<in> set (object_keys b) then own_prop b k else own_prop a k)" for a
  proof (induction b arbitrary: a)
    case Nil
    then show ?case by (simp add: object_keys_Nil)
  next
    case (Cons kv b)
    obtain k' v' where kv: "kv = (k', v')" by (cases kv)
    from Cons.prems kv have d: "distinct (object_keys b)" and fresh: "k' \<notin> set (object_keys b)"
      by (auto simp: object_keys_Cons)
    have "own_prop (fold (\<lambda>(k, v). set_prop k v) b (set_prop k' v' a)) k =
            (if k \<in> set (object_keys b) then own_prop b k else own_prop (set_prop k' v' a) k)"
      by (rule Cons.IH[OF d])
    with fresh show ?case
      by (auto simp: kv own_prop_set_prop own_prop_Cons object_keys_Cons)
  qed
  with assms show ?thesis by (simp add: spread_into_def)
qed

lemma base_transformed_spec:
  assumes "transformContentOptions base = transformContentOptions_spec"
  shows "base_transformed base fo co w =
           ((if object_keys (rest_properties recognized_option_names co) = [] then w
             else call_onChange fo
                    (ChangeEvent UNRECOGNIZED_CONTENT_OPTIONS WARN
                       ''Experience content options contain unrecognized properties''
                       (JObj [(''unrecognizedContentOptions'',
                          JArr (map JStr
                            (object_keys (rest_properties recognized_option_names co))))]))
                    w),
            spread_into [(''locale'', own_prop co ''locale'')]
              (rest_properties recognized_option_names co))"
  by (simp add: base_transformed_def assms transformContentOptions_spec_def)

lemma constructor_proceeds:
  assumes "dashboard_regex_exec (url fo) = Some [full, did, g2]"
    and "transformDashboardContentOptions base fo co w = (w2, Inr tco)"
  shows "DashboardExperience_constructor base fo co w =
           (w2\<lparr>framesConstructed := framesConstructed w2 @
                 [DashboardExperienceFrame fo co tco
                    (snd (getInternalExperienceInfo base
                            \<lparr>experienceType = DASHBOARD, dashboardId = did\<rparr>))
                    (fst (getInternalExperienceInfo base
                            \<lparr>experienceType = DASHBOARD, dashboardId = did\<rparr>))]\<rparr>,
            Inr \<lparr>experience = \<lparr>experienceType = DASHBOARD, dashboardId = did\<rparr>,
                 internalExperience =
                   snd (getInternalExperienceInfo base
                          \<lparr>experienceType = DASHBOARD, dashboardId = did\<rparr>),
                 experienceId =
                   fst (getInternalExperienceInfo base
                          \<lparr>experienceType = DASHBOARD, dashboardId = did\<rparr>),
                 experienceFrame =
                   DashboardExperienceFrame fo co tco
                    (snd (getInternalExperienceInfo base
                            \<lparr>experienceType = DASHBOARD, dashboardId = did\<rparr>))
                    (fst (getInternalExperienceInfo base
                            \<lparr>experienceType = DASHBOARD, dashboardId = did\<rparr>))\<rparr>)"
proof -
  from assms(1) have "url fo \<noteq> []"
    using regex_exec_empty by auto
  then show ?thesis
    by (simp add: DashboardExperience_constructor_def BaseExperience_constructor_url_present
        extractExperienceFromUrl_match[OF assms(1)] assms(2) Let_def split: prod.split)
qed

lemma onMessage_recognized: "''onMessage'' \<in> set recognized_option_names"
  by (simp add: recognized_option_names_def)

section \<open>Claims about unrecognized options and onMessage\<close>

text \<open>
  C10. Whenever the \<^verbatim>\<open>parameters\<close> option is readable, \<^verbatim>\<open>transformDashboardContentOptions\<close>
  returns, and \<^verbatim>\<open>onMessage\<close> takes no part in it: it is neither among the unrecognized options
  nor among the filtered options handed to the base class, and the function never writes it,
  so it is a key of the transformed content options only if the base class put it there. With
  the base transformation as the specification describes it, \<^verbatim>\<open>onMessage\<close> is not a key of
  the transformed content options, and \<^verbatim>\<open>onChange\<close> is either not called or called once with
  the change event that lists the unrecognized options, \<^verbatim>\<open>onMessage\<close> not among them.
\<close>

theorem onMessage_is_neither_forwarded_nor_reported:
  assumes "parameters_readable (own_prop co ''parameters'')"
  shows "\<exists>w' tco. transformDashboardContentOptions base fo co w = (w', Inr tco)
           \<and> ''onMessage'' \<notin> set (object_keys (rest_properties recognized_option_names co))
           \<and> ''onMessage'' \<notin> set (object_keys [(''locale'', own_prop co ''locale'')])
           \<and> (''onMessage'' \<in> set (object_keys tco) \<longleftrightarrow>
              ''onMessage'' \<in> set (object_keys (snd (base_transformed base fo co w))))
           \<and> (transformContentOptions base = transformContentOptions_spec \<longrightarrow>
                ''onMessage'' \<notin> set (object_keys tco)
              \<and> (onChangeCalls w' = onChangeCalls w \<or>
                 onChangeCalls w' = onChangeCalls w @
                   [(ChangeEvent UNRECOGNIZED_CONTENT_OPTIONS WARN
                       ''Experience content options contain unrecognized properties''
                       (JObj [(''unrecognizedContentOptions'',
                          JArr (map JStr
                            (object_keys (rest_properties recognized_option_names co))))]),
                     JObj [(''frame'', JNull)])]))"
proof -
  let ?rest = "rest_properties recognized_option_names co"
  let ?b = "base_transformed base fo co w"
  from transformDashboardContentOptions_returns[OF assms, of base fo w]
  obtain t1 where
    r: "transformDashboardContentOptions base fo co w =
          (fst ?b,
           Inr (assign_dashboard_options (own_prop co ''attributionOptions'')
                  (own_prop co ''sheetOptions'') (own_prop co ''toolbarOptions'') t1))"
    and low: "set (object_keys (snd ?b)) \<subseteq> set (object_keys t1)"
    and up: "set (object_keys t1) \<subseteq> insert ''parameters'' (set (object_keys (snd ?b)))"
    by blast
  let ?tco = "assign_dashboard_options (own_prop co ''attributionOptions'')
                  (own_prop co ''sheetOptions'') (own_prop co ''toolbarOptions'') t1"
  have rest: "''onMessage'' \<notin> set (object_keys ?rest)"
    using onMessage_recognized by (simp add: object_keys_rest_properties)
  have filtered: "''onMessage'' \<notin> set (object_keys [(''locale'', own_prop co ''locale'')])"
    by (simp add: object_keys_Cons object_keys_Nil)
  have "''onMessage'' \<in> set (object_keys ?tco) \<longleftrightarrow> ''onMessage'' \<in> set (object_keys t1)"
    using keys_assign_dashboard_options_upper
      [of "own_prop co ''attributionOptions''" "own_prop co ''sheetOptions''"
          "own_prop co ''toolbarOptions''" t1]
      keys_assign_dashboard_options_lower
      [of t1 "own_prop co ''attributionOptions''" "own_prop co ''sheetOptions''"
          "own_prop co ''toolbarOptions''"]
    by auto
  with low up have same: "''onMessage'' \<in> set (object_keys ?tco) \<longleftrightarrow>
                          ''onMessage'' \<in> set (object_keys (snd ?b))"
    by auto
  have spec: "transformContentOptions base = transformContentOptions_spec \<longrightarrow>
                ''onMessage'' \<notin> set (object_keys ?tco)
              \<and> (onChangeCalls (fst ?b) = onChangeCalls w \<or>
                 onChangeCalls (fst ?b) = onChangeCalls w @
                   [(ChangeEvent UNRECOGNIZED_CONTENT_OPTIONS WARN
                       ''Experience content options contain unrecognized properties''
                       (JObj [(''unrecognizedContentOptions'',
                          JArr (map JStr (object_keys ?rest)))]),
                     JObj [(''frame'', JNull)])])"
  proof
    assume b: "transformContentOptions base = transformContentOptions_spec"
    have "set (object_keys (snd ?b)) = insert ''locale'' (set (object_keys ?rest))"
      by (simp add: base_transformed_spec[OF b] keys_spread_into object_keys_Cons
          object_keys_Nil)
    with same rest have tco: "''onMessage'' \<notin> set (object_keys ?tco)" by auto
    have "onChangeCalls (fst ?b) = onChangeCalls w \<or>
          onChangeCalls (fst ?b) = onChangeCalls w @
            [(ChangeEvent UNRECOGNIZED_CONTENT_OPTIONS WARN
                ''Experience content options contain unrecognized properties''
                (JObj [(''unrecognizedContentOptions'',
                   JArr (map JStr (object_keys ?rest)))]),
              JObj [(''frame'', JNull)])]"
      by (simp add: base_transformed_spec[OF b] call_onChange_def)
    with tco show "''onMessage'' \<notin> set (object_keys ?tco)
              \<and> (onChangeCalls (fst ?b) = onChangeCalls w \<or>
                 onChangeCalls (fst ?b) = onChangeCalls w @
                   [(ChangeEvent UNRECOGNIZED_CONTENT_OPTIONS WARN
                       ''Experience content options contain unrecognized properties''
                       (JObj [(''unrecognizedContentOptions'',
                          JArr (map JStr (object_keys ?rest)))]),
                     JObj [(''frame'', JNull)])])"
      by blast
  qed
  from r rest filtered same spec show ?thesis by blast
qed

theorem onMessage_is_neither_forwarded_nor_reported_witness:
  "\<exists>w' tco. transformDashboardContentOptions sample_base (sample_frameOptions [])
       [(''onMessage'', JFun ''() => {}''), (''testUnrecognizedContentOption'', JStr ''some value'')]
       empty_world = (w', Inr tco)
     \<and> ''onMessage'' \<notin> set (object_keys tco)
     \<and> (onChangeCalls w' = [] \<or>
        onChangeCalls w' =
          [(ChangeEvent UNRECOGNIZED_CONTENT_OPTIONS WARN
              ''Experience content options contain unrecognized properties''
              (JObj [(''unrecognizedContentOptions'',
                 JArr [JStr ''testUnrecognizedContentOption''])]),
            JObj [(''frame'', JNull)])])"
proof -
  have b: "transformContentOptions sample_base = transformContentOptions_spec"
    by (simp add: sample_base_def)
  have p: "parameters_readable
       (own_prop [(''onMessage'', JFun ''() => {}''),
                  (''testUnrecognizedContentOption'', JStr ''some value'')] ''parameters'')"
    by (simp add: own_prop_def)
  from onMessage_is_neither_forwarded_nor_reported
    [OF p, of sample_base "sample_frameOptions []" empty_world] b
  show ?thesis
    by (auto simp: rest_properties_def recognized_option_names_def object_keys_def
        empty_world_def)
qed


text \<open>
  C6. With the base transformation as the specification describes it: when the URL is
  accepted, the host supplied \<^verbatim>\<open>onChange\<close>, the \<^verbatim>\<open>parameters\<close> option is readable and the
  content options have at least one key outside the recognized names, the constructor
  returns an experience whose frame was constructed with the transformed content options;
  up to there \<^verbatim>\<open>onChange\<close> is called exactly once, with the WARN-level event
  \<^verbatim>\<open>UNRECOGNIZED_CONTENT_OPTIONS\<close> that lists exactly the keys outside the recognized names, in
  their order; each of these keys is a key of the transformed content options, and it keeps
  its value unless it is one of the names the function itself writes.
\<close>

theorem unrecognized_options_are_reported_once_and_forwarded:
  assumes "transformContentOptions base = transformContentOptions_spec"
    and "dashboard_path_grammar_ci (url fo)"
    and "onChange fo"
    and "parameters_readable (own_prop co ''parameters'')"
    and "\<exists>k \<in> set (object_keys co). k \<notin> set recognized_option_names"
  shows "\<exists>w' obj tco.
           DashboardExperience_constructor base fo co w = (w', Inr obj)
         \<and> experienceFrame obj =
             DashboardExperienceFrame fo co tco (internalExperience obj) (experienceId obj)
         \<and> framesConstructed w' = framesConstructed w @ [experienceFrame obj]
         \<and> onChangeCalls w' = onChangeCalls w @
             [(ChangeEvent UNRECOGNIZED_CONTENT_OPTIONS WARN
                 ''Experience content options contain unrecognized properties''
                 (JObj [(''unrecognizedContentOptions'',
                    JArr (map JStr
                      (filter (\<lambda>k. k \<notin> set recognized_option_names) (object_keys co))))]),
               JObj [(''frame'', JNull)])]
         \<and> (\<forall>k \<in> set (object_keys co).
               k \<notin> set recognized_option_names \<longrightarrow> k \<in> set (object_keys tco))
         \<and> (distinct (object_keys co) \<longrightarrow>
              (\<forall>k \<in> set (object_keys co).
                 k \<notin> set recognized_option_names \<and> k \<notin> set assigned_option_names \<longrightarrow>
                 own_prop tco k = own_prop co k))"
proof -
  let ?rest = "rest_properties recognized_option_names co"
  let ?b = "base_transformed base fo co w"
  let ?ev = "ChangeEvent UNRECOGNIZED_CONTENT_OPTIONS WARN
                 ''Experience content options contain unrecognized properties''
                 (JObj [(''unrecognizedContentOptions'',
                    JArr (map JStr
                      (filter (\<lambda>k. k \<notin> set recognized_option_names) (object_keys co))))])"
  from assms(2) have "dashboard_regex_exec (url fo) \<noteq> None"
    using regex_exec_iff_grammar_ci[of "url fo"] by blast
  then obtain ms where "dashboard_url_match canonicalize (url fo) = Some ms"
    by (auto simp: dashboard_regex_exec_def)
  from url_match_sound[OF this] obtain full did g2 where
    m: "dashboard_regex_exec (url fo) = Some [full, did, g2]"
    unfolding dashboard_regex_exec_def \<open>dashboard_url_match canonicalize (url fo) = Some ms\<close>
    by blast
  from transformDashboardContentOptions_returns[OF assms(4), of base fo w]
  obtain t1 where
    r: "transformDashboardContentOptions base fo co w =
          (fst ?b,
           Inr (assign_dashboard_options (own_prop co ''attributionOptions'')
                  (own_prop co ''sheetOptions'') (own_prop co ''toolbarOptions'') t1))"
    and same: "\<forall>k. k \<noteq> ''parameters'' \<longrightarrow> own_prop t1 k = own_prop (snd ?b) k"
    and low: "set (object_keys (snd ?b)) \<subseteq> set (object_keys t1)"
    by blast
  let ?tco = "assign_dashboard_options (own_prop co ''attributionOptions'')
                  (own_prop co ''sheetOptions'') (own_prop co ''toolbarOptions'') t1"
  from assms(5) have nonempty: "object_keys ?rest \<noteq> []"
    by (auto simp: object_keys_rest_properties filter_empty_conv)
  have world: "fst ?b = w\<lparr>onChangeCalls := onChangeCalls w @ [(?ev, JObj [(''frame'', JNull)])]\<rparr>"
    using nonempty assms(3)
    by (simp add: base_transformed_spec[OF assms(1)] call_onChange_def
        object_keys_rest_properties)
  have t0: "snd ?b = spread_into [(''locale'', own_prop co ''locale'')] ?rest"
    by (simp add: base_transformed_spec[OF assms(1)])
  have keys: "\<forall>k \<in> set (object_keys co).
               k \<notin> set recognized_option_names \<longrightarrow> k \<in> set (object_keys ?tco)"
  proof (intro ballI impI)
    fix k assume "k \<in> set (object_keys co)" "k \<notin> set recognized_option_names"
    then have "k \<in> set (object_keys ?rest)"
      by (simp add: object_keys_rest_properties)
    then have "k \<in> set (object_keys (snd ?b))"
      by (simp add: t0 keys_spread_into)
    with low have "k \<in> set (object_keys t1)" by blast
    then show "k \<in> set (object_keys ?tco)"
      using keys_assign_dashboard_options_lower by blast
  qed
  have vals: "distinct (object_keys co) \<longrightarrow>
              (\<forall>k \<in> set (object_keys co).
                 k \<notin> set recognized_option_names \<and> k \<notin> set assigned_option_names \<longrightarrow>
                 own_prop ?tco k = own_prop co k)"
  proof (intro impI ballI)
    fix k
    assume d: "distinct (object_keys co)" and k: "k \<in> set (object_keys co)"
      and n: "k \<notin> set recognized_option_names \<and> k \<notin> set assigned_option_names"
    from d have dr: "distinct (object_keys ?rest)"
      by (simp add: object_keys_rest_properties)
    from k n have kr: "k \<in> set (object_keys ?rest)"
      by (simp add: object_keys_rest_properties)
    from n have "own_prop ?tco k = own_prop t1 k"
      by (intro other_properties_kept) (simp add: assigned_option_names_def)
    also from n same have "\<dots> = own_prop (snd ?b) k"
      by (simp add: assigned_option_names_def)
    also have "\<dots> = own_prop ?rest k"
      using kr by (simp add: t0 own_prop_spread_into[OF dr])
    also have "\<dots> = own_prop co k"
      using n by (simp add: own_prop_rest_properties)
    finally show "own_prop ?tco k = own_prop co k" .
  qed
  from constructor_proceeds[OF m r] world keys vals show ?thesis
    by (intro exI conjI) (assumption | simp)+
qed

theorem unrecognized_options_are_reported_once_and_forwarded_witness:
  "\<exists>w' obj tco.
     DashboardExperience_constructor sample_base
       (sample_frameOptions ''https://test.amazon.com/embed/guid/dashboards/testDashboardId'')
       [(''testUnrecognizedContentOption'', JStr ''some value'')] empty_world = (w', Inr obj)
   \<and> experienceFrame obj =
       DashboardExperienceFrame
         (sample_frameOptions ''https://test.amazon.com/embed/guid/dashboards/testDashboardId'')
         [(''testUnrecognizedContentOption'', JStr ''some value'')] tco
         (internalExperience obj) (experienceId obj)
   \<and> framesConstructed w' = [experienceFrame obj]
   \<and> onChangeCalls w' =
       [(ChangeEvent UNRECOGNIZED_CONTENT_OPTIONS WARN
           ''Experience content options contain unrecognized properties''
           (JObj [(''unrecognizedContentOptions'',
              JArr [JStr ''testUnrecognizedContentOption''])]),
         JObj [(''frame'', JNull)])]
   \<and> ''testUnrecognizedContentOption'' \<in> set (object_keys tco)
   \<and> own_prop tco ''testUnrecognizedContentOption'' = JStr ''some value''"
proof -
  have "dashboard_regex_exec ''https://test.amazon.com/embed/guid/dashboards/testDashboardId''
          \<noteq> None"
    by (simp add: dashboard_regex_exec_def dashboard_url_match_def match_class_plus_def
        not_slash_def word_or_hyphen_def canonicalize_def)
  then have g: "dashboard_path_grammar_ci
       (url (sample_frameOptions
          ''https://test.amazon.com/embed/guid/dashboards/testDashboardId''))"
    using regex_exec_iff_grammar_ci
      [of "''https://test.amazon.com/embed/guid/dashboards/testDashboardId''"]
    unfolding url_sample_frameOptions by blast
  have b: "transformContentOptions sample_base = transformContentOptions_spec"
    by (simp add: sample_base_def)
  have c: "onChange
       (sample_frameOptions ''https://test.amazon.com/embed/guid/dashboards/testDashboardId'')"
    by (simp add: sample_frameOptions_def)
  from unrecognized_options_are_reported_once_and_forwarded
    [OF b g c, of "[(''testUnrecognizedContentOption'', JStr ''some value'')]" empty_world]
  show ?thesis
    by (simp add: own_prop_def object_keys_def recognized_option_names_def
        assigned_option_names_def empty_world_def)
qed

section \<open>The parameter list and the name-to-values mapping\<close>

lemma reduce_parameters_typed:
  "reduce_parameters (map parameter_object ps) acc =
     Inr (fold (\<lambda>p. set_prop (Name p) (Values p)) ps acc)"
  by (induction ps arbitrary: acc) (simp_all add: parameter_object_def own_prop_def)

lemma object_keys_append: "object_keys (a @ b) = object_keys a @ object_keys b"
  by (simp add: object_keys_def)

lemma fold_set_prop_fresh:
  "distinct (map Name ps) \<Longrightarrow> set (map Name ps) \<inter> set (object_keys acc) = {} \<Longrightarrow>
   fold (\<lambda>p. set_prop (Name p) (Values p)) ps acc = acc @ map (\<lambda>p. (Name p, Values p)) ps"
proof (induction ps arbitrary: acc)
  case Nil
  then show ?case by simp
next
  case (Cons p ps)
  from Cons.prems have fresh: "Name p \<notin> set (object_keys acc)" by auto
  from Cons.prems have
    "distinct (map Name ps)"
    "set (map Name ps) \<inter> set (object_keys (acc @ [(Name p, Values p)])) = {}"
    by (auto simp: object_keys_append object_keys_Cons object_keys_Nil)
  from Cons.IH[OF this] show ?case
    by (simp add: set_prop_fresh[OF fresh])
qed

lemma parameters_of_object_pairs:
  "parameters_of_object (map (\<lambda>p. (Name p, Values p)) ps) = ps"
  by (induction ps) (simp_all add: parameters_of_object_def)

text \<open>
  C2, as the claim states it, fails: when two entries share a name, the mapping keeps the
  values of the later one only, so the earlier entry is not in the list converted back.
\<close>

theorem parameters_round_trip_counterexample:
  "transformDashboardContentOptions sample_base (sample_frameOptions [])
     [(''parameters'',
       JArr [parameter_object \<lparr>Name = ''State'', Values = JArr [JStr ''CT'']\<rparr>,
             parameter_object \<lparr>Name = ''State'', Values = JArr [JStr ''NY'']\<rparr>])]
     empty_world
   = (empty_world,
      Inr [(''locale'', JUndefined),
           (''parameters'', JObj [(''State'', JArr [JStr ''NY''])]),
           (''footerPaddingEnabled'', JBool True),
           (''undoRedoDisabled'', JBool True),
           (''resetDisabled'', JBool True)])
   \<and> parameters_of_object [(''State'', JArr [JStr ''NY''])]
       = [\<lparr>Name = ''State'', Values = JArr [JStr ''NY'']\<rparr>]
   \<and> \<lparr>Name = ''State'', Values = JArr [JStr ''CT'']\<rparr>
       \<notin> set (parameters_of_object [(''State'', JArr [JStr ''NY''])])"
  by (simp add: transformDashboardContentOptions_def sample_base_def
      transformContentOptions_spec_def rest_properties_def recognized_option_names_def
      object_keys_def spread_into_def own_prop_def parameter_object_def
      assign_dashboard_options_def assign_if_def parameters_of_object_def)

text \<open>
  C2, amended. For every list of parameters whose names are pairwise distinct, given as the
  \<^verbatim>\<open>parameters\<close> content option, \<^verbatim>\<open>transformDashboardContentOptions\<close> returns, the
  \<^verbatim>\<open>parameters\<close> of the transformed content options is a name-to-values mapping, and
  converting that mapping back yields the entries of the original list, each exactly once
  (in some order).
\<close>

theorem parameters_round_trip_for_distinct_names:
  assumes "distinct (map Name ps)"
    and "own_prop co ''parameters'' = JArr (map parameter_object ps)"
  shows "\<exists>w' tco obj.
           transformDashboardContentOptions base fo co w = (w', Inr tco)
         \<and> own_prop tco ''parameters'' = JObj obj
         \<and> mset (parameters_of_object obj) = mset ps"
proof -
  let ?obj = "map (\<lambda>p. (Name p, Values p)) ps"
  have "reduce_parameters (map parameter_object ps) [] = Inr ?obj"
    using fold_set_prop_fresh[OF assms(1), of "[]"]
    by (simp add: reduce_parameters_typed object_keys_Nil)
  from transformDashboardContentOptions_with_parameters[OF assms(2) this, of base fo w]
  have r: "transformDashboardContentOptions base fo co w =
          (fst (base_transformed base fo co w),
           Inr (assign_dashboard_options (own_prop co ''attributionOptions'')
                  (own_prop co ''sheetOptions'') (own_prop co ''toolbarOptions'')
                  (set_prop ''parameters'' (JObj ?obj) (snd (base_transformed base fo co w)))))" .
  have "own_prop (assign_dashboard_options (own_prop co ''attributionOptions'')
                  (own_prop co ''sheetOptions'') (own_prop co ''toolbarOptions'')
                  (set_prop ''parameters'' (JObj ?obj) (snd (base_transformed base fo co w))))
          ''parameters'' = JObj ?obj"
    by (simp add: other_properties_kept own_prop_set_prop)
  with r parameters_of_object_pairs[of ps] show ?thesis by auto
qed

theorem parameters_round_trip_for_distinct_names_witness:
  "\<exists>w' tco obj.
     transformDashboardContentOptions sample_base (sample_frameOptions [])
       [(''parameters'',
         JArr (map parameter_object
           [\<lparr>Name = ''State'', Values = JArr [JStr ''CT'']\<rparr>,
            \<lparr>Name = ''Year'', Values = JArr [JNum 2023, JNum 2024]\<rparr>]))]
       empty_world = (w', Inr tco)
   \<and> own_prop tco ''parameters'' = JObj obj
   \<and> mset (parameters_of_object obj) =
       mset [\<lparr>Name = ''State'', Values = JArr [JStr ''CT'']\<rparr>,
             \<lparr>Name = ''Year'', Values = JArr [JNum 2023, JNum 2024]\<rparr>]"
  using parameters_round_trip_for_distinct_names
    [of "[\<lparr>Name = ''State'', Values = JArr [JStr ''CT'']\<rparr>,
          \<lparr>Name = ''Year'', Values = JArr [JNum 2023, JNum 2024]\<rparr>]"
      "[(''parameters'',
         JArr (map parameter_object
           [\<lparr>Name = ''State'', Values = JArr [JStr ''CT'']\<rparr>,
            \<lparr>Name = ''Year'', Values = JArr [JNum 2023, JNum 2024]\<rparr>]))]"
      sample_base "sample_frameOptions []" empty_world]
  by (simp add: own_prop_def)


end
